theory Spec2Isabelle
  imports Complex_Main "HOL-Library.Word"
begin

section \<open>JavaScript values and the two containers\<close>

text \<open>
  \<^verbatim>\<open>Option<T>\<close> (Option.ts) is a class with the private fields \<^verbatim>\<open>#has\<close> and
  \<^verbatim>\<open>#value\<close>; \<^verbatim>\<open>Result<T, E>\<close> (Result.ts) is a class with the private fields
  \<^verbatim>\<open>#value\<close>, \<^verbatim>\<open>#error\<close> and \<^verbatim>\<open>#isError\<close>. Both are single-constructor
  datatypes here, so that a value of the program can itself hold one of them (the test
  \<^verbatim>\<open>newValue instanceof Option\<close> of \<^verbatim>\<open>Option.map\<close> needs that).
\<close>

datatype 'a Option = Option (has: bool) (opt_value: 'a)

datatype ('t, 'e) Result = Result (res_isError: bool) (res_value: 't) (res_error: 'e)

text \<open>
  The values a TypeScript variable of type \<^verbatim>\<open>any\<close> can hold, as far as the code
  distinguishes them. \<open>Number\<close> holds the finite numbers (\<^verbatim>\<open>456.0\<close> is
  \<open>Number 456\<close>); \<open>Function\<close> is a function object, named; \<open>ErrorObj m\<close> is
  \<^verbatim>\<open>new Error(m)\<close>; \<open>Object\<close> is any other object, by identity.
\<close>

datatype val =
    Undefined
  | Null
  | Boolean bool
  | Number rat
  | Text string
  | Array "val list"
  | Function string
  | ErrorObj string
  | OptionV "val Option"
  | ResultV "(val, val) Result"
  | Object nat

text \<open>A computation either throws a value (\<open>Inl\<close>) or returns one (\<open>Inr\<close>).\<close>

type_synonym 'a js = "val + 'a"

definition then_js :: "'a js \<Rightarrow> ('a \<Rightarrow> 'b js) \<Rightarrow> 'b js" where
  "then_js m f = (case m of Inl thrown \<Rightarrow> Inl thrown | Inr x \<Rightarrow> f x)"

text \<open>The \<^verbatim>\<open>typeof\<close> operator and the truthiness test of \<^verbatim>\<open>if\<close> and \<^verbatim>\<open>!\<close>.\<close>

fun typeof :: "val \<Rightarrow> string" where
  "typeof Undefined = ''undefined''"
| "typeof (Boolean b) = ''boolean''"
| "typeof (Number n) = ''number''"
| "typeof (Text s) = ''string''"
| "typeof (Function f) = ''function''"
| "typeof v = ''object''"

fun ToBoolean :: "val \<Rightarrow> bool" where
  "ToBoolean Undefined = False"
| "ToBoolean Null = False"
| "ToBoolean (Boolean b) = b"
| "ToBoolean (Number n) = (n \<noteq> 0)"
| "ToBoolean (Text s) = (s \<noteq> [])"
| "ToBoolean v = True"

text \<open>
  The formatter \<^verbatim>\<open>sprintf\<close> of \<^verbatim>\<open>./_/printf.ts\<close> is imported by ops.ts and
  panic.ts. Their code is modelled over any such function, the parameter \<open>fmt\<close>, which
  may itself throw.
\<close>

type_synonym sprintf_fn = "string \<Rightarrow> val list \<Rightarrow> string js"

subsection \<open>panic.ts\<close>

text \<open>
  \<^verbatim>\<open>if (typeof value === "string") { throw sprintf(value, ...args); } throw value;\<close>
\<close>

definition panic :: "sprintf_fn \<Rightarrow> val \<Rightarrow> val list \<Rightarrow> 'a js" where
  "panic fmt v args =
     (if typeof v = ''string''
      then (case v of
              Text formatter \<Rightarrow> then_js (fmt formatter args) (\<lambda>message. Inl (Text message))
            | _ \<Rightarrow> Inl v)
      else Inl v)"

text \<open>
  The documented revision of panic.ts:
  \<^verbatim>\<open>if (typeof value === "string") { throw new Error(sprintf(value, ...args)); } throw value;\<close>
\<close>

definition panic_Error :: "sprintf_fn \<Rightarrow> val \<Rightarrow> val list \<Rightarrow> 'a js" where
  "panic_Error fmt v args =
     (if typeof v = ''string''
      then (case v of
              Text formatter \<Rightarrow> then_js (fmt formatter args) (\<lambda>message. Inl (ErrorObj message))
            | _ \<Rightarrow> Inl v)
      else Inl v)"

text \<open>
  The diagnostic message that a thrown value carries: a thrown string is the message, a
  thrown Error has one; no other value carries a message.
\<close>

fun diagnostic :: "val \<Rightarrow> string option" where
  "diagnostic (Text m) = Some m"
| "diagnostic (ErrorObj m) = Some m"
| "diagnostic v = None"

text \<open>
  Option.ts and Result.ts import \<^verbatim>\<open>panic\<close> from \<^verbatim>\<open>./panic.ts\<close>, of which the
  sources hold the two revisions above. Their methods are modelled over the imported
  function, the parameter \<open>abort\<close>: \<open>panic fmt\<close> or \<open>panic_Error fmt\<close>.
\<close>

type_synonym panic_fn = "val \<Rightarrow> val list \<Rightarrow> unit js"

subsection \<open>Option.ts\<close>

text \<open>
  \<^verbatim>\<open>None()\<close> builds \<^verbatim>\<open>new Option()\<close>: \<^verbatim>\<open>#has = false\<close>, \<^verbatim>\<open>#value\<close> left
  undefined. \<^verbatim>\<open>Some(value)\<close> builds \<^verbatim>\<open>new Option({ value })\<close>:
  \<^verbatim>\<open>#has = true\<close>, \<^verbatim>\<open>#value = value\<close>.
\<close>

definition None_opt :: "val Option" where
  "None_opt = Option False Undefined"

definition Some_opt :: "val \<Rightarrow> val Option" where
  "Some_opt v = Option True v"

definition isSome :: "val Option \<Rightarrow> bool" where
  "isSome this = has this"

definition isNone :: "val Option \<Rightarrow> bool" where
  "isNone this = (\<not> has this)"

text \<open>\<^verbatim>\<open>expect(message) { if (!this.#has) panic(message); return this.#value as T; }\<close>\<close>

definition Option_expect :: "panic_fn \<Rightarrow> val Option \<Rightarrow> string \<Rightarrow> val js" where
  "Option_expect abort this message =
     then_js (if \<not> has this then abort (Text message) [] else Inr ())
       (\<lambda>_. Inr (opt_value this))"

text \<open>\<^verbatim>\<open>unwrap() { return this.expect("Option does not contain a value!"); }\<close>\<close>

definition Option_unwrap :: "panic_fn \<Rightarrow> val Option \<Rightarrow> val js" where
  "Option_unwrap abort this = Option_expect abort this ''Option does not contain a value!''"

text \<open>\<^verbatim>\<open>unwrapOr(value) { if (this.#has) return this.#value as T; return value; }\<close>\<close>

definition Option_unwrapOr :: "val Option \<Rightarrow> val \<Rightarrow> val js" where
  "Option_unwrapOr this v = (if has this then Inr (opt_value this) else Inr v)"

text \<open>\<^verbatim>\<open>unwrapOrElse(cb) { if (this.#has) return this.#value as T; return cb(); }\<close>\<close>

definition Option_unwrapOrElse :: "val Option \<Rightarrow> (unit \<Rightarrow> val js) \<Rightarrow> val js" where
  "Option_unwrapOrElse this cb = (if has this then Inr (opt_value this) else cb ())"

text \<open>
  \<^verbatim>\<open>map(cb) { if (this.#has) { const newValue = cb(this.#value as T);
    if (newValue instanceof Option) { return newValue; } else { return Some(newValue as any); } }
    return None(); }\<close>
\<close>

definition Option_map :: "val Option \<Rightarrow> (val \<Rightarrow> val js) \<Rightarrow> (val Option) js" where
  "Option_map this cb =
     (if has this
      then then_js (cb (opt_value this))
             (\<lambda>newValue. case newValue of
                            OptionV opt \<Rightarrow> Inr opt
                          | _ \<Rightarrow> Inr (Some_opt newValue))
      else Inr None_opt)"

subsection \<open>Result.ts\<close>

text \<open>
  \<^verbatim>\<open>Ok(value)\<close> builds \<^verbatim>\<open>new Result(false, value)\<close>, \<^verbatim>\<open>Err(error)\<close> builds
  \<^verbatim>\<open>new Result(true, undefined, error)\<close>.
\<close>

definition Ok :: "val \<Rightarrow> (val, val) Result" where
  "Ok v = Result False v Undefined"

definition Err :: "val \<Rightarrow> (val, val) Result" where
  "Err e = Result True Undefined e"

definition isOk :: "(val, val) Result \<Rightarrow> bool" where
  "isOk this = (\<not> res_isError this)"

definition isErr :: "(val, val) Result \<Rightarrow> bool" where
  "isErr this = res_isError this"

text \<open>\<^verbatim>\<open>expect(message) { if (this.#isError) panic(message); return this.#value as T; }\<close>\<close>

definition Result_expect :: "panic_fn \<Rightarrow> (val, val) Result \<Rightarrow> val \<Rightarrow> val js" where
  "Result_expect abort this message =
     then_js (if res_isError this then abort message [] else Inr ())
       (\<lambda>_. Inr (res_value this))"

text \<open>\<^verbatim>\<open>unwrap() { return this.expect(this.#error as unknown as string); }\<close>\<close>

definition Result_unwrap :: "panic_fn \<Rightarrow> (val, val) Result \<Rightarrow> val js" where
  "Result_unwrap abort this = Result_expect abort this (res_error this)"

text \<open>
  \<^verbatim>\<open>andThen(cb) { if (!this.isErr) return cb(this.#value as T); return this; }\<close>

  The condition reads the property \<^verbatim>\<open>isErr\<close> without calling it: its value is the
  method, a function object, whatever the state of the result.
\<close>

definition Result_andThen ::
  "(val, val) Result \<Rightarrow> (val \<Rightarrow> ((val, val) Result) js) \<Rightarrow> ((val, val) Result) js" where
  "Result_andThen this cb =
     (if \<not> ToBoolean (Function ''isErr'') then cb (res_value this) else Inr this)"

text \<open>\<^verbatim>\<open>orElse(cb) { if (this.#isError) return cb(this.#error as E); return this; }\<close>\<close>

definition Result_orElse ::
  "(val, val) Result \<Rightarrow> (val \<Rightarrow> ((val, val) Result) js) \<Rightarrow> ((val, val) Result) js" where
  "Result_orElse this cb = (if res_isError this then cb (res_error this) else Inr this)"

text \<open>\<^verbatim>\<open>unwrapOr(value) { return this.#isError ? value : this.#value as T; }\<close>\<close>

definition Result_unwrapOr :: "(val, val) Result \<Rightarrow> val \<Rightarrow> val js" where
  "Result_unwrapOr this v = (if res_isError this then Inr v else Inr (res_value this))"

text \<open>
  \<^verbatim>\<open>unwrapOrElse(cb) { return this.#isError ? cb(this.#error as E) : this.#value as T; }\<close>
\<close>

definition Result_unwrapOrElse :: "(val, val) Result \<Rightarrow> (val \<Rightarrow> val js) \<Rightarrow> val js" where
  "Result_unwrapOrElse this cb =
     (if res_isError this then cb (res_error this) else Inr (res_value this))"

subsection \<open>ops.ts\<close>

text \<open>\<^verbatim>\<open>format(formatter, ...args) { return sprintf(formatter, ...args); }\<close>\<close>

definition format :: "(string \<Rightarrow> val list \<Rightarrow> 'r) \<Rightarrow> string \<Rightarrow> val list \<Rightarrow> 'r" where
  "format fmt formatter args = fmt formatter args"

text \<open>
  A \<^verbatim>\<open>Deno.WriterSync\<close> has one method, \<^verbatim>\<open>writeSync(p: Uint8Array): number\<close>, which
  may change the sink (its state is \<open>'s\<close>) and may throw.
\<close>

type_synonym byte = "8 word"

record 's WriterSync =
  writeSync :: "byte list \<Rightarrow> 's \<Rightarrow> nat js \<times> 's"

text \<open>
  \<^verbatim>\<open>try { stream.writeSync(e.encode(format(formatter, ...args))); return Ok(); }
  catch (error) { return Err(error); }\<close>

  \<open>encode\<close> is the platform's \<^verbatim>\<open>TextEncoder.encode\<close>, which does not throw.
\<close>

definition "write" ::
  "sprintf_fn \<Rightarrow> (string \<Rightarrow> byte list) \<Rightarrow> 's WriterSync \<Rightarrow> string \<Rightarrow> val list \<Rightarrow> 's
     \<Rightarrow> ((val, val) Result) js \<times> 's" where
  "write fmt encode stream formatter args \<sigma> =
     (case format fmt formatter args of
        Inl error \<Rightarrow> (Inr (Err error), \<sigma>)
      | Inr text \<Rightarrow>
          (case writeSync stream (encode text) \<sigma> of
             (Inl error, \<sigma>') \<Rightarrow> (Inr (Err error), \<sigma>')
           | (Inr written, \<sigma>') \<Rightarrow> (Inr (Ok Undefined), \<sigma>')))"

section \<open>The formatting engine\<close>

text \<open>
  \<^verbatim>\<open>sprintf\<close> is imported from \<^verbatim>\<open>./_/printf.ts\<close>, a module that is not part of
  the sources. The engine below is written from the specification, component by component
  (Scanner, Directive Parser, Argument Cursor, Verb Formatter, Padder, Assembler). What
  the specification leaves to the implementation is a field of the record \<open>policy\<close>, and
  every property of the engine is proved for every policy.
\<close>

subsection \<open>Data model\<close>

text \<open>
  Modelled from the spec: the flag set of a directive is a
  \<^verbatim>\<open>set of {plus, minus, hash, space, zero, spread}\<close>.
\<close>

datatype flag = Plus | Minus | Hash | Space | Zero | Spread

text \<open>
  Modelled from the spec: \<^verbatim>\<open>WidthSpec\<close> and \<^verbatim>\<open>PrecisionSpec\<close> are each one of
  \<^verbatim>\<open>{absent, literal(n), fromArg, fromArgAt(n)}\<close>.
\<close>

datatype spec = Absent | Literal nat | FromArg | FromArgAt nat

text \<open>
  Modelled from the spec: \<^verbatim>\<open>Directive: { verb, flags, width, precision, explicitIndex }\<close>.
\<close>

record Directive =
  verb :: char
  flags :: "flag set"
  width :: spec
  precision :: spec
  explicitIndex :: "nat option"

text \<open>
  Modelled from the spec: the recoverable failures of a directive. Each becomes an inline
  token; the specification fixes the token of the first two.
\<close>

datatype failure = BadVerb char | Missing char | Malformed string

text \<open>
  Modelled from the spec: the points the specification leaves to the implementation.
  \<open>stringify\<close> is the plain stringification of \<^verbatim>\<open>%s\<close> and \<^verbatim>\<open>%v\<close>;
  \<open>inspect expanded depth\<close> the developer-inspection dump (\<^verbatim>\<open>%i\<close>, \<^verbatim>\<open>%I\<close>,
  \<^verbatim>\<open>%#v\<close>); \<open>serialize expanded\<close> the structured serialization (\<^verbatim>\<open>%j\<close>,
  \<^verbatim>\<open>%J\<close>); \<open>float_form\<close> the exponential and fixed notations of a number;
  \<open>code_point\<close> the character at a code point; \<open>display\<close> the display capability of a
  value, if it has one; \<open>conversion_token\<close> the token of a conversion that fails;
  \<open>malformed_token\<close> the token of a malformed directive; \<open>separator\<close> the joining of
  the elements that the \<^verbatim>\<open><\<close> modifier formats one by one.
\<close>

record policy =
  stringify :: "val \<Rightarrow> string"
  inspect :: "bool \<Rightarrow> nat option \<Rightarrow> val \<Rightarrow> string"
  serialize :: "bool \<Rightarrow> val \<Rightarrow> string"
  float_form :: "char \<Rightarrow> flag set \<Rightarrow> nat option \<Rightarrow> rat \<Rightarrow> string"
  code_point :: "int \<Rightarrow> string"
  display :: "val \<Rightarrow> string option"
  conversion_token :: "char \<Rightarrow> val \<Rightarrow> string"
  malformed_token :: "string \<Rightarrow> string"
  separator :: "string list \<Rightarrow> string"

text \<open>
  Modelled from the spec: every step returns a tagged outcome, ok with a value or a
  recoverable failure; \<open>on_ok\<close> runs the next step on an ok outcome.
\<close>

definition on_ok :: "failure + 'a \<Rightarrow> ('a \<Rightarrow> failure + 'b) \<Rightarrow> failure + 'b" where
  "on_ok r f = (case r of Inl failed \<Rightarrow> Inl failed | Inr x \<Rightarrow> f x)"

subsection \<open>Scanner\<close>

text \<open>
  Modelled from the spec: the segments of a template are literal runs and directive spans
  (the raw text between \<^verbatim>\<open>%\<close> and the verb character, verb included); a
  \<^verbatim>\<open>%\<close> that the template ends without a verb for is an unfinished directive.
\<close>

datatype segment = LiteralRun string | DirectiveSpan string | Unfinished string

text \<open>
  Modelled from the spec: the characters of the directive grammar before the verb
  (index brackets, flags, digits, star, dot and the \<^verbatim>\<open><\<close> modifier). The verb is the
  first character after \<^verbatim>\<open>%\<close> that is none of them.
\<close>

definition directive_char :: "char \<Rightarrow> bool" where
  "directive_char c = (c \<in> set ''[]+-# 0123456789*.<'')"

text \<open>Modelled from the spec: a literal character extends the literal run that follows it.\<close>

fun add_literal :: "char \<Rightarrow> segment list \<Rightarrow> segment list" where
  "add_literal c (LiteralRun s # segs) = LiteralRun (c # s) # segs"
| "add_literal c segs = LiteralRun [c] # segs"

text \<open>
  Modelled from the spec: the Scanner. \<open>scan\<close> reads literal text, \<open>in_directive body\<close>
  reads a directive of which \<open>body\<close> has been read after the \<^verbatim>\<open>%\<close>. A
  \<^verbatim>\<open>%%\<close> sequence is a literal percent and short-circuits directive parsing.
\<close>

fun scan :: "string \<Rightarrow> segment list"
  and in_directive :: "string \<Rightarrow> string \<Rightarrow> segment list" where
  "scan [] = []"
| "scan (c # cs) = (if c = CHR ''%'' then in_directive [] cs else add_literal c (scan cs))"
| "in_directive body [] = [Unfinished body]"
| "in_directive body (c # cs) =
     (if body = [] \<and> c = CHR ''%'' then add_literal CHR ''%'' (scan cs)
      else if directive_char c then in_directive (body @ [c]) cs
      else DirectiveSpan (body @ [c]) # scan cs)"

subsection \<open>Directive Parser\<close>

text \<open>Modelled from the spec: \<^verbatim>\<open>DIGITS\<close> and the number they denote.\<close>

definition digit_char :: "char \<Rightarrow> bool" where
  "digit_char c = (c \<in> set ''0123456789'')"

text \<open>Modelled from the spec: the number that a run of decimal digits denotes.\<close>

definition number_of :: "string \<Rightarrow> nat" where
  "number_of ds = foldl (\<lambda>n c. 10 * n + (of_char c - 48)) 0 ds"

text \<open>
  Modelled from the spec: \<^verbatim>\<open>'[' INDEX ']'\<close> at the head of the text; the result is the
  index and the text after the bracket.
\<close>

definition parse_index :: "string \<Rightarrow> (nat \<times> string) option" where
  "parse_index s =
     (case s of
        [] \<Rightarrow> None
      | c # cs \<Rightarrow>
          if c \<noteq> CHR ''['' then None
          else (case dropWhile digit_char cs of
                  [] \<Rightarrow> None
                | r # rest \<Rightarrow>
                    if r = CHR '']'' \<and> takeWhile digit_char cs \<noteq> []
                    then Some (number_of (takeWhile digit_char cs), rest)
                    else None))"

text \<open>
  Modelled from the spec: the optional explicit index at the head of a directive. Text that
  opens a bracket and is no index is malformed (\<open>None\<close>).
\<close>

definition parse_explicit :: "string \<Rightarrow> (nat option \<times> string) option" where
  "parse_explicit s =
     (if s \<noteq> [] \<and> hd s = CHR ''[''
      then map_option (\<lambda>(n, rest). (Some n, rest)) (parse_index s)
      else Some (None, s))"

text \<open>Modelled from the spec: \<^verbatim>\<open>FLAGS ::= one of '+','-','#',' ','0'\<close>, and the \<^verbatim>\<open><\<close> modifier.\<close>

definition flag_char :: "char \<Rightarrow> bool" where
  "flag_char c = (c \<in> set ''+-# 0<'')"

text \<open>Modelled from the spec: the flag that a flag character sets.\<close>

definition flag_of :: "char \<Rightarrow> flag" where
  "flag_of c =
     (if c = CHR ''+'' then Plus
      else if c = CHR ''-'' then Minus
      else if c = CHR ''#'' then Hash
      else if c = CHR '' '' then Space
      else if c = CHR ''0'' then Zero
      else Spread)"

text \<open>
  Modelled from the spec: \<^verbatim>\<open>WIDTH ::= DIGITS | '*' | '*[' INDEX ']'\<close>, or nothing.
\<close>

definition parse_spec :: "string \<Rightarrow> (spec \<times> string) option" where
  "parse_spec s =
     (case s of
        [] \<Rightarrow> Some (Absent, [])
      | c # cs \<Rightarrow>
          if digit_char c
          then Some (Literal (number_of (takeWhile digit_char s)), dropWhile digit_char s)
          else if c = CHR ''*''
          then (if cs \<noteq> [] \<and> hd cs = CHR ''[''
                then map_option (\<lambda>(n, rest). (FromArgAt n, rest)) (parse_index cs)
                else Some (FromArg, cs))
          else Some (Absent, s))"

text \<open>
  Modelled from the spec: \<^verbatim>\<open>['.' PRECISION]\<close>, where
  \<^verbatim>\<open>PRECISION ::= DIGITS | '*' | '*[' INDEX ']' | <empty meaning 0>\<close>.
\<close>

definition parse_precision :: "string \<Rightarrow> (spec \<times> string) option" where
  "parse_precision s =
     (if s \<noteq> [] \<and> hd s = CHR ''.''
      then map_option (\<lambda>(p, rest). (if p = Absent then Literal 0 else p, rest)) (parse_spec (tl s))
      else Some (Absent, s))"

text \<open>
  Modelled from the spec: the Directive Parser. It consumes one directive span and returns
  a Directive or a parse failure. The grammar is
  \<^verbatim>\<open>'%' ['[' INDEX ']'] FLAGS* WIDTH ['.' PRECISION] VERB\<close>. A verb absent from the
  dispatch table (\<open>known\<close> says which verbs are in it) is a parse failure of its own, for
  every span that ends in it.
\<close>

definition parse_directive :: "(char \<Rightarrow> bool) \<Rightarrow> string \<Rightarrow> failure + Directive" where
  "parse_directive known raw =
     (if raw = [] then Inl (Malformed raw)
      else if \<not> known (last raw) then Inl (BadVerb (last raw))
      else (case parse_explicit (butlast raw) of
              None \<Rightarrow> Inl (Malformed raw)
            | Some (index, s1) \<Rightarrow>
                (case parse_spec (dropWhile flag_char s1) of
                   None \<Rightarrow> Inl (Malformed raw)
                 | Some (w, s2) \<Rightarrow>
                     (case parse_precision s2 of
                        None \<Rightarrow> Inl (Malformed raw)
                      | Some (p, s3) \<Rightarrow>
                          if s3 = []
                          then Inr \<lparr>verb = last raw,
                                    flags = set (map flag_of (takeWhile flag_char s1)),
                                    width = w, precision = p, explicitIndex = index\<rparr>
                          else Inl (Malformed raw)))))"

subsection \<open>Argument Cursor\<close>

text \<open>
  Modelled from the spec: \<^verbatim>\<open>nextArg()\<close> returns the argument at
  \<^verbatim>\<open>nextImplicitIndex\<close> and advances it by one; out of bounds it fails (\<open>None\<close>).
\<close>

definition nextArg :: "val list \<Rightarrow> nat \<Rightarrow> (val \<times> nat) option" where
  "nextArg args cursor =
     (if cursor < length args then Some (args ! cursor, cursor + 1) else None)"

text \<open>
  Modelled from the spec: \<^verbatim>\<open>argAt(i)\<close> returns the argument at absolute index \<open>i\<close>
  and leaves the sequential counter alone, except that the call attached to a directive
  sets \<^verbatim>\<open>nextImplicitIndex = i + 1\<close>; out of bounds it fails.
\<close>

definition argAt :: "val list \<Rightarrow> nat \<Rightarrow> bool \<Rightarrow> nat \<Rightarrow> (val \<times> nat) option" where
  "argAt args i attached cursor =
     (if i < length args then Some (args ! i, if attached then i + 1 else cursor) else None)"

text \<open>
  Modelled from the spec: the index \<^verbatim>\<open>[n]\<close> written in a template counts from one
  (\<^verbatim>\<open>%[1]s\<close> is the first argument), so it stands for the absolute index \<open>n - 1\<close>, and
  \<^verbatim>\<open>[0]\<close> is out of bounds.
\<close>

definition argAtWritten :: "val list \<Rightarrow> nat \<Rightarrow> bool \<Rightarrow> nat \<Rightarrow> (val \<times> nat) option" where
  "argAtWritten args n attached cursor = (if n = 0 then None else argAt args (n - 1) attached cursor)"

text \<open>Modelled from the spec: a width or precision read from an argument is a natural number.\<close>

definition as_count :: "val \<Rightarrow> nat option" where
  "as_count v =
     (case v of
        Number q \<Rightarrow> if of_int \<lfloor>q\<rfloor> = q \<and> 0 \<le> q then Some (nat \<lfloor>q\<rfloor>) else None
      | _ \<Rightarrow> None)"

text \<open>
  Modelled from the spec: resolving a width or precision. The \<^verbatim>\<open>*\<close>-forms read the
  value from the argument list: \<open>FromArg\<close> consumes one argument and advances the
  cursor, \<open>FromArgAt\<close> is a lookup that does not move it.
\<close>

definition resolve_spec ::
  "val list \<Rightarrow> char \<Rightarrow> string \<Rightarrow> spec \<Rightarrow> nat \<Rightarrow> failure + (nat option \<times> nat)" where
  "resolve_spec args v raw sp cursor =
     (case sp of
        Absent \<Rightarrow> Inr (None, cursor)
      | Literal n \<Rightarrow> Inr (Some n, cursor)
      | FromArg \<Rightarrow>
          (case nextArg args cursor of
             None \<Rightarrow> Inl (Missing v)
           | Some (a, cursor') \<Rightarrow>
               (case as_count a of
                  None \<Rightarrow> Inl (Malformed raw)
                | Some n \<Rightarrow> Inr (Some n, cursor')))
      | FromArgAt i \<Rightarrow>
          (case argAtWritten args i False cursor of
             None \<Rightarrow> Inl (Missing v)
           | Some (a, cursor') \<Rightarrow>
               (case as_count a of
                  None \<Rightarrow> Inl (Malformed raw)
                | Some n \<Rightarrow> Inr (Some n, cursor'))))"

text \<open>
  Modelled from the spec: the argument of the directive itself: at the explicit index when
  there is one (which resets sequential consumption), the next one otherwise.
\<close>

definition resolve_arg :: "val list \<Rightarrow> Directive \<Rightarrow> nat \<Rightarrow> failure + (val \<times> nat)" where
  "resolve_arg args d cursor =
     (case (case explicitIndex d of
              None \<Rightarrow> nextArg args cursor
            | Some n \<Rightarrow> argAtWritten args n True cursor) of
        None \<Rightarrow> Inl (Missing (verb d))
      | Some (a, cursor') \<Rightarrow> Inr (a, cursor'))"

subsection \<open>Verb Formatter\<close>

text \<open>
  Modelled from the spec: a conversion turns one resolved argument into an unpadded
  string, given the flag set and the precision.
\<close>

type_synonym conversion = "flag set \<Rightarrow> nat option \<Rightarrow> val \<Rightarrow> string"

text \<open>Modelled from the spec: the digits of a natural number in a base up to sixteen.\<close>

definition digit_of :: "bool \<Rightarrow> nat \<Rightarrow> char" where
  "digit_of upper d = (if upper then ''0123456789ABCDEF'' else ''0123456789abcdef'') ! (d mod 16)"

text \<open>
  Modelled from the spec: the digits of \<open>n\<close> in the base, most significant first
  (upper or lower case above nine).
\<close>

function digits :: "bool \<Rightarrow> nat \<Rightarrow> nat \<Rightarrow> string" where
  "digits upper base n =
     (if n < base \<or> base < 2 then [digit_of upper n]
      else digits upper base (n div base) @ [digit_of upper (n mod base)])"
  by pat_completeness auto
termination
  by (relation "measure (\<lambda>(upper, base, n). n)") auto

text \<open>
  Modelled from the spec: \<^verbatim>\<open>Coerce to integer\<close>. A number is cut to its integer
  part; a value that is no number fails to coerce.
\<close>

definition coerce_integer :: "val \<Rightarrow> int option" where
  "coerce_integer a =
     (case a of
        Number q \<Rightarrow> Some (if 0 \<le> q then \<lfloor>q\<rfloor> else \<lceil>q\<rceil>)
      | _ \<Rightarrow> None)"

text \<open>
  Modelled from the spec: the sign of a number: \<^verbatim>\<open>-\<close> when negative; otherwise
  \<^verbatim>\<open>+\<close> under the plus flag, a space under the space flag.
\<close>

definition sign_of :: "flag set \<Rightarrow> bool \<Rightarrow> string" where
  "sign_of fs negative =
     (if negative then ''-'' else if Plus \<in> fs then ''+'' else if Space \<in> fs then '' '' else [])"

text \<open>
  Modelled from the spec: the integer verbs: coerce to integer, emit the digits in the
  base; the hash flag puts the prefix of the base in front. A value that does not coerce
  yields an error token.
\<close>

definition fmt_integer :: "policy \<Rightarrow> char \<Rightarrow> nat \<Rightarrow> bool \<Rightarrow> string \<Rightarrow> conversion" where
  "fmt_integer P v base upper prefix fs prec a =
     (case coerce_integer a of
        None \<Rightarrow> conversion_token P v a
      | Some i \<Rightarrow>
          sign_of fs (i < 0) @ (if Hash \<in> fs then prefix else []) @ digits upper base (nat \<bar>i\<bar>))"

text \<open>Modelled from the spec: strings joined with a string between them.\<close>

fun join_with :: "string \<Rightarrow> string list \<Rightarrow> string" where
  "join_with sep [] = []"
| "join_with sep [x] = x"
| "join_with sep (x # y # ys) = x @ sep @ join_with sep (y # ys)"

text \<open>
  Modelled from the spec: \<^verbatim>\<open>x\<close>, \<^verbatim>\<open>X\<close> on a string: the string as a byte sequence,
  in hex pairs; the precision truncates to that many bytes; the space flag puts spaces
  between the bytes. On any other value they are integer verbs.
\<close>

definition fmt_hex :: "policy \<Rightarrow> char \<Rightarrow> bool \<Rightarrow> conversion" where
  "fmt_hex P v upper fs prec a =
     (case a of
        Text s \<Rightarrow>
          join_with (if Space \<in> fs then '' '' else [])
            (map (\<lambda>c. [digit_of upper (of_char c div 16), digit_of upper (of_char c mod 16)])
               (case prec of None \<Rightarrow> s | Some p \<Rightarrow> take p s))
      | _ \<Rightarrow> fmt_integer P v 16 upper (if upper then ''0X'' else ''0x'') fs prec a)"

text \<open>Modelled from the spec: \<^verbatim>\<open>t\<close>: coerce to boolean, emit \<^verbatim>\<open>true\<close>/\<^verbatim>\<open>false\<close>.\<close>

definition fmt_bool :: conversion where
  "fmt_bool fs prec a = (if ToBoolean a then ''true'' else ''false'')"

text \<open>
  Modelled from the spec: \<^verbatim>\<open>c\<close>: coerce to integer, emit the single character at that
  code point.
\<close>

definition fmt_char :: "policy \<Rightarrow> char \<Rightarrow> conversion" where
  "fmt_char P v fs prec a =
     (case coerce_integer a of None \<Rightarrow> conversion_token P v a | Some i \<Rightarrow> code_point P i)"

text \<open>
  Modelled from the spec: \<^verbatim>\<open>e\<close>, \<^verbatim>\<open>E\<close>, \<^verbatim>\<open>f\<close>, \<^verbatim>\<open>F\<close>: coerce to number, emit
  exponential or fixed notation; the precision is the number of digits after the decimal
  point, six by default.
\<close>

definition fmt_float :: "policy \<Rightarrow> char \<Rightarrow> conversion" where
  "fmt_float P v fs prec a =
     (case a of
        Number q \<Rightarrow> float_form P v fs (Some (case prec of None \<Rightarrow> 6 | Some p \<Rightarrow> p)) q
      | _ \<Rightarrow> conversion_token P v a)"

text \<open>
  Modelled from the spec: \<^verbatim>\<open>g\<close>, \<^verbatim>\<open>G\<close>: the e or the f form, chosen by magnitude;
  the hash flag retains trailing zeros.
\<close>

definition fmt_general :: "policy \<Rightarrow> char \<Rightarrow> conversion" where
  "fmt_general P v fs prec a =
     (case a of
        Number q \<Rightarrow> float_form P v fs prec q
      | _ \<Rightarrow> conversion_token P v a)"

text \<open>
  Modelled from the spec: \<^verbatim>\<open>s\<close>: coerce to string; the precision truncates to that
  many characters.
\<close>

definition fmt_string :: "policy \<Rightarrow> conversion" where
  "fmt_string P fs prec a =
     (case prec of
        None \<Rightarrow> (case a of Text s \<Rightarrow> s | _ \<Rightarrow> stringify P a)
      | Some p \<Rightarrow> take p (case a of Text s \<Rightarrow> s | _ \<Rightarrow> stringify P a))"

text \<open>Modelled from the spec: \<^verbatim>\<open>T\<close>: the dynamic type tag of the argument.\<close>

definition fmt_type :: conversion where
  "fmt_type fs prec a = typeof a"

text \<open>
  Modelled from the spec: \<^verbatim>\<open>v\<close>: plain stringification, or with the hash flag the
  inspection dump, for which the precision is a depth limit.
\<close>

definition fmt_value :: "policy \<Rightarrow> conversion" where
  "fmt_value P fs prec a = (if Hash \<in> fs then inspect P False prec a else stringify P a)"

text \<open>
  Modelled from the spec: \<^verbatim>\<open>j\<close>, \<^verbatim>\<open>J\<close>: structured serialization, compact or
  expanded.
\<close>

definition fmt_json :: "policy \<Rightarrow> bool \<Rightarrow> conversion" where
  "fmt_json P expanded fs prec a = serialize P expanded a"

text \<open>
  Modelled from the spec: \<^verbatim>\<open>i\<close>, \<^verbatim>\<open>I\<close>: developer-inspection serialization, compact or
  expanded, distinct from \<^verbatim>\<open>j\<close>/\<^verbatim>\<open>J\<close>.
\<close>

definition fmt_inspect :: "policy \<Rightarrow> bool \<Rightarrow> conversion" where
  "fmt_inspect P expanded fs prec a = inspect P expanded None a"

text \<open>
  Modelled from the spec: \<^verbatim>\<open>?\<close>: the display capability of the argument renders it;
  an argument without the capability yields an error token naming the verb.
\<close>

definition fmt_display :: "policy \<Rightarrow> char \<Rightarrow> conversion" where
  "fmt_display P v fs prec a =
     (case display P a of None \<Rightarrow> conversion_token P v a | Some s \<Rightarrow> s)"

text \<open>Modelled from the spec: \<^verbatim>\<open>%\<close>: a literal percent.\<close>

definition fmt_percent :: conversion where
  "fmt_percent fs prec a = ''%''"

text \<open>
  Modelled from the spec: the dispatch table, from a verb character to its conversion: a
  finite enumeration. \<^verbatim>\<open>d\<close> is the decimal member of the integer family (the
  specification's examples use it).
\<close>

definition verb_table :: "policy \<Rightarrow> char \<Rightarrow> conversion option" where
  "verb_table P v =
     (if v = CHR ''t'' then Some fmt_bool
      else if v = CHR ''b'' then Some (fmt_integer P v 2 False ''0b'')
      else if v = CHR ''o'' then Some (fmt_integer P v 8 False ''0'')
      else if v = CHR ''d'' then Some (fmt_integer P v 10 False [])
      else if v = CHR ''x'' then Some (fmt_hex P v False)
      else if v = CHR ''X'' then Some (fmt_hex P v True)
      else if v = CHR ''c'' then Some (fmt_char P v)
      else if v \<in> set ''eEfF'' then Some (fmt_float P v)
      else if v \<in> set ''gG'' then Some (fmt_general P v)
      else if v = CHR ''s'' then Some (fmt_string P)
      else if v = CHR ''T'' then Some fmt_type
      else if v = CHR ''v'' then Some (fmt_value P)
      else if v = CHR ''j'' then Some (fmt_json P False)
      else if v = CHR ''J'' then Some (fmt_json P True)
      else if v = CHR ''i'' then Some (fmt_inspect P False)
      else if v = CHR ''I'' then Some (fmt_inspect P True)
      else if v = CHR ''?'' then Some (fmt_display P v)
      else if v = CHR ''%'' then Some fmt_percent
      else None)"

subsection \<open>Padder\<close>

text \<open>
  Modelled from the spec: given an unpadded string and a resolved width, pad with spaces,
  or with \<^verbatim>\<open>0\<close> when the zero flag is set and the minus flag is not, to reach the
  minimum width; the minus flag left-justifies, with spaces whatever the zero flag; a sign
  stays in front of the zero padding.
\<close>

definition pad :: "flag set \<Rightarrow> nat option \<Rightarrow> string \<Rightarrow> string" where
  "pad fs w s =
     (case w of
        None \<Rightarrow> s
      | Some n \<Rightarrow>
          if Minus \<in> fs then s @ replicate (n - length s) CHR '' ''
          else if Zero \<in> fs
          then (if s \<noteq> [] \<and> hd s \<in> set ''+-''
                then hd s # replicate (n - length s) CHR ''0'' @ tl s
                else replicate (n - length s) CHR ''0'' @ s)
          else replicate (n - length s) CHR '' '' @ s)"

subsection \<open>Assembler\<close>

text \<open>
  Modelled from the spec: the \<^verbatim>\<open><\<close> modifier re-applies the directive to every
  element of an array-valued argument and joins the results; any other argument is
  converted and padded as it is.
\<close>

definition apply_conversion ::
  "policy \<Rightarrow> Directive \<Rightarrow> conversion \<Rightarrow> nat option \<Rightarrow> nat option \<Rightarrow> val \<Rightarrow> string" where
  "apply_conversion P d conv w p a =
     (case a of
        Array xs \<Rightarrow>
          if Spread \<in> flags d
          then separator P (map (\<lambda>x. pad (flags d) w (conv (flags d) p x)) xs)
          else pad (flags d) w (conv (flags d) p a)
      | _ \<Rightarrow> pad (flags d) w (conv (flags d) p a))"

text \<open>
  Modelled from the spec: one directive through cursor, verb formatter and padder. The
  \<^verbatim>\<open>*\<close>-forms of width and precision are resolved first, then the argument of the
  directive. \<^verbatim>\<open>%\<close> as a verb consumes no argument.
\<close>

definition render_directive ::
  "policy \<Rightarrow> val list \<Rightarrow> string \<Rightarrow> Directive \<Rightarrow> nat \<Rightarrow> failure + (string \<times> nat)" where
  "render_directive P args raw d cursor =
     (if verb d = CHR ''%'' then Inr (''%'', cursor)
      else
        on_ok (resolve_spec args (verb d) raw (width d) cursor) (\<lambda>(w, cursor1).
        on_ok (resolve_spec args (verb d) raw (precision d) cursor1) (\<lambda>(p, cursor2).
        on_ok (resolve_arg args d cursor2) (\<lambda>(a, cursor3).
          (case verb_table P (verb d) of
             None \<Rightarrow> Inl (BadVerb (verb d))
           | Some conv \<Rightarrow> Inr (apply_conversion P d conv w p a, cursor3))))))"

text \<open>Modelled from the spec: unknown verb \<^verbatim>\<open>h\<close>: \<^verbatim>\<open>%!(BAD VERB 'h')\<close>.\<close>

definition bad_verb_token :: "char \<Rightarrow> string" where
  "bad_verb_token c = ''%!(BAD VERB '' @ [CHR 0x27, c, CHR 0x27] @ '')''"

text \<open>Modelled from the spec: missing argument for verb \<^verbatim>\<open>d\<close>: \<^verbatim>\<open>%!(MISSING 'd')\<close>.\<close>

definition missing_token :: "char \<Rightarrow> string" where
  "missing_token c = ''%!(MISSING '' @ [CHR 0x27, c, CHR 0x27] @ '')''"

text \<open>Modelled from the spec: the inline token of each recoverable failure.\<close>

definition token :: "policy \<Rightarrow> failure \<Rightarrow> string" where
  "token P f =
     (case f of
        BadVerb c \<Rightarrow> bad_verb_token c
      | Missing c \<Rightarrow> missing_token c
      | Malformed raw \<Rightarrow> malformed_token P raw)"

text \<open>
  Modelled from the spec: one directive span through parser, cursor, verb formatter and
  padder; a recoverable failure becomes its token and leaves the cursor where it was.
\<close>

definition render_span :: "policy \<Rightarrow> val list \<Rightarrow> string \<Rightarrow> nat \<Rightarrow> string \<times> nat" where
  "render_span P args raw cursor =
     (case on_ok (parse_directive (\<lambda>c. verb_table P c \<noteq> None) raw)
             (\<lambda>d. render_directive P args raw d cursor) of
        Inl failed \<Rightarrow> (token P failed, cursor)
      | Inr (out, cursor') \<Rightarrow> (out, cursor'))"

text \<open>
  Modelled from the spec: the Assembler walks the segments in order and concatenates
  literal runs and directive outputs, the cursor passing from one directive to the next.
\<close>

fun assemble :: "policy \<Rightarrow> val list \<Rightarrow> nat \<Rightarrow> segment list \<Rightarrow> string" where
  "assemble P args cursor [] = []"
| "assemble P args cursor (LiteralRun s # segs) = s @ assemble P args cursor segs"
| "assemble P args cursor (DirectiveSpan raw # segs) =
     (case render_span P args raw cursor of
        (out, cursor') \<Rightarrow> out @ assemble P args cursor' segs)"
| "assemble P args cursor (Unfinished body # segs) =
     token P (Malformed (CHR ''%'' # body)) @ assemble P args cursor segs"

text \<open>
  Modelled from the spec: one render. The cursor is created for the call, at the first
  argument, and nothing of it is kept afterwards.
\<close>

definition sprintf :: "policy \<Rightarrow> string \<Rightarrow> val list \<Rightarrow> string" where
  "sprintf P template args = assemble P args 0 (scan template)"

text \<open>
  Modelled from the spec: format never aborts. As the \<^verbatim>\<open>sprintf\<close> that ops.ts and
  panic.ts import, the engine returns for every template and every argument list.
\<close>

definition engine :: "policy \<Rightarrow> sprintf_fn" where
  "engine P template args = Inr (sprintf P template args)"

text \<open>
  Modelled from the spec: the cursor that the Assembler holds after it has walked the
  segments, from the cursor it started with.
\<close>

fun cursor_after :: "policy \<Rightarrow> val list \<Rightarrow> nat \<Rightarrow> segment list \<Rightarrow> nat" where
  "cursor_after P args cursor [] = cursor"
| "cursor_after P args cursor (DirectiveSpan raw # segs) =
     cursor_after P args (snd (render_span P args raw cursor)) segs"
| "cursor_after P args cursor (seg # segs) = cursor_after P args cursor segs"

text \<open>
  Modelled from the spec: a segment other than a directive that its template ends without
  a verb for. Text whose segments are all finished does not end inside a directive.
\<close>

fun finished :: "segment \<Rightarrow> bool" where
  "finished (Unfinished body) = False"
| "finished seg = True"

text \<open>
  A policy for evaluating examples: it marks each output it is asked for, and none of the
  examples below asks it for one unless the example is about it.
\<close>

definition plain_policy :: policy where
  "plain_policy =
     \<lparr>stringify = (\<lambda>a. ''<string>''),
      inspect = (\<lambda>expanded depth a. ''<inspect>''),
      serialize = (\<lambda>expanded a. ''<json>''),
      float_form = (\<lambda>v fs prec q. ''<float>''),
      code_point = (\<lambda>i. ''<char>''),
      display = (\<lambda>a. None),
      conversion_token = (\<lambda>v a. ''%!(BAD ARGUMENT)''),
      malformed_token = (\<lambda>raw. ''%!(MALFORMED)''),
      separator = concat\<rparr>"

subsection \<open>The statements of the specification\<close>

text \<open>
  A literal-only template: every \<^verbatim>\<open>%\<close> in it belongs to a \<^verbatim>\<open>%%\<close> pair.
\<close>

fun literal_only :: "string \<Rightarrow> bool" where
  "literal_only [] = True"
| "literal_only [c] = (c \<noteq> CHR ''%'')"
| "literal_only (c # d # cs) =
     (if c = CHR ''%'' then d = CHR ''%'' \<and> literal_only cs else literal_only (d # cs))"

text \<open>
  The template with each \<^verbatim>\<open>%%\<close> collapsed to \<^verbatim>\<open>%\<close> and every other character
  unchanged, in order.
\<close>

fun collapse :: "string \<Rightarrow> string" where
  "collapse [] = []"
| "collapse [c] = [c]"
| "collapse (c # d # cs) =
     (if c = CHR ''%'' \<and> d = CHR ''%'' then CHR ''%'' # collapse cs else c # collapse (d # cs))"

text \<open>\<open>starts_with s tok\<close>: the string \<open>s\<close> begins with \<open>tok\<close>.\<close>

fun starts_with :: "string \<Rightarrow> string \<Rightarrow> bool" where
  "starts_with s [] = True"
| "starts_with [] (t # ts) = False"
| "starts_with (c # cs) (t # ts) = (c = t \<and> starts_with cs ts)"

text \<open>\<open>contains s tok\<close>: the string \<open>s\<close> has \<open>tok\<close> inside, as a run of characters.\<close>

fun contains :: "string \<Rightarrow> string \<Rightarrow> bool" where
  "contains [] tok = (tok = [])"
| "contains (c # cs) tok = (starts_with (c # cs) tok \<or> contains cs tok)"

section \<open>Properties of the containers, panic and write\<close>

lemma typeof_string_iff: "typeof v = ''string'' \<longleftrightarrow> (\<exists>s. v = Text s)"
  by (cases v) simp_all

lemma panic_throws: "\<exists>thrown. (panic fmt v args :: 'a js) = Inl thrown"
  by (cases v; cases "fmt (case v of Text s \<Rightarrow> s | _ \<Rightarrow> []) args")
     (simp_all add: panic_def then_js_def)

lemma panic_Error_throws: "\<exists>thrown. (panic_Error fmt v args :: 'a js) = Inl thrown"
  by (cases v; cases "fmt (case v of Text s \<Rightarrow> s | _ \<Rightarrow> []) args")
     (simp_all add: panic_Error_def then_js_def)

text \<open>
  C10. The claim: for every Ok result with value \<open>v\<close>, \<^verbatim>\<open>andThen(cb)\<close> returns
  \<^verbatim>\<open>cb(v)\<close>. The code: \<^verbatim>\<open>andThen\<close> returns its receiver, for every receiver and
  callback; \<^verbatim>\<open>Ok(1).andThen(v => Ok(2))\<close> returns \<^verbatim>\<open>Ok(1)\<close>, and a callback that
  throws is not noticed.
\<close>

theorem andThen_Ok_ignores_callback:
  "Result_andThen this cb = Inr this
   \<and> Result_andThen (Ok (Number 1)) (\<lambda>v. Inr (Ok (Number 2))) = Inr (Ok (Number 1))
   \<and> Result_andThen (Ok (Number 1)) (\<lambda>v. Inl (Text ''called'')) = Inr (Ok (Number 1))"
  by (simp add: Result_andThen_def)

text \<open>
  C8. panic never returns. Given a string, it throws the string that \<^verbatim>\<open>sprintf\<close>
  (here \<open>fmt\<close>) makes of it and the remaining arguments (panic.ts), or an Error with
  that message (the documented revision); given any other value, it throws that value.
\<close>

theorem panic_never_returns:
  "(\<exists>thrown. (panic fmt v args :: unit js) = Inl thrown)
   \<and> (\<exists>thrown. (panic_Error fmt v args :: unit js) = Inl thrown)
   \<and> (fmt s args = Inr m \<longrightarrow>
        (panic fmt (Text s) args :: unit js) = Inl (Text m)
      \<and> (panic_Error fmt (Text s) args :: unit js) = Inl (ErrorObj m))
   \<and> (typeof v \<noteq> ''string'' \<longrightarrow>
        (panic fmt v args :: unit js) = Inl v
      \<and> (panic_Error fmt v args :: unit js) = Inl v)"
  using panic_throws [of fmt v args] panic_Error_throws [of fmt v args]
  by (simp add: panic_def panic_Error_def then_js_def)

theorem panic_never_returns_witness:
  "(panic (\<lambda>f a. Inr (f @ ''!'')) (Text ''stop'') [] :: unit js) = Inl (Text ''stop!'')
   \<and> (panic_Error (\<lambda>f a. Inr (f @ ''!'')) (Text ''stop'') [] :: unit js) = Inl (ErrorObj ''stop!'')
   \<and> (panic (\<lambda>f a. Inr (f @ ''!'')) (Number 123) [] :: unit js) = Inl (Number 123)
   \<and> (panic_Error (\<lambda>f a. Inr (f @ ''!'')) (Number 123) [] :: unit js) = Inl (Number 123)"
  using panic_never_returns [of "\<lambda>f a. Inr (f @ ''!'')" "Number 123" "[]" "''stop''" "''stop!''"]
  by simp

text \<open>
  C9. \<^verbatim>\<open>Option.map\<close> on a Some: when the callback returns an Option, that Option is
  the result, not a Some around it; when it returns anything else, the result is Some of
  it; when it throws, map throws the same. On a None the result is None whatever the
  callback is, so the callback is not run.
\<close>

theorem Option_map_flattens:
  "(has opt \<and> cb (opt_value opt) = Inr (OptionV inner) \<longrightarrow> Option_map opt cb = Inr inner)
   \<and> (has opt \<and> cb (opt_value opt) = Inr w \<and> (\<forall>inner. w \<noteq> OptionV inner) \<longrightarrow>
        Option_map opt cb = Inr (Some_opt w))
   \<and> (has opt \<and> cb (opt_value opt) = Inl thrown \<longrightarrow> Option_map opt cb = Inl thrown)
   \<and> (\<not> has opt \<longrightarrow> Option_map opt cb = Inr None_opt)"
  by (cases w) (simp_all add: Option_map_def then_js_def)

theorem Option_map_flattens_witness:
  "Option_map (Some_opt (Number 1)) (\<lambda>v. Inr (OptionV (Some_opt (Text ''x'')))) = Inr (Some_opt (Text ''x''))
   \<and> Option_map (Some_opt (Number 1)) (\<lambda>v. Inr (OptionV None_opt)) = Inr None_opt
   \<and> Option_map (Some_opt (Number 1)) (\<lambda>v. Inr (Array [v, v])) = Inr (Some_opt (Array [Number 1, Number 1]))
   \<and> Option_map None_opt (\<lambda>v. Inl (Text ''called'')) = Inr None_opt"
  using Option_map_flattens [of "Some_opt (Number 1)" "\<lambda>v. Inr (OptionV (Some_opt (Text ''x'')))"
      "Some_opt (Text ''x'')" "Undefined" "Undefined"]
    Option_map_flattens [of "Some_opt (Number 1)" "\<lambda>v. Inr (OptionV None_opt)" None_opt "Undefined" "Undefined"]
    Option_map_flattens [of "Some_opt (Number 1)" "\<lambda>v. Inr (Array [v, v])" None_opt
      "Array [Number 1, Number 1]" "Undefined"]
    Option_map_flattens [of None_opt "\<lambda>v. Inl (Text ''called'')" None_opt "Undefined" "Undefined"]
  by (simp add: Some_opt_def None_opt_def)

text \<open>
  C1. \<^verbatim>\<open>write\<close> never throws. When formatting returns and the one
  \<^verbatim>\<open>writeSync\<close> call returns, the result is \<^verbatim>\<open>Ok()\<close>; when that call throws
  \<open>e\<close>, the result is \<^verbatim>\<open>Err(e)\<close>, with the sink as the call left it. (An exception
  of the formatter is caught the same way, before the sink is touched.)
\<close>

theorem write_reports_sink_outcome:
  "(\<exists>r. fst (write fmt encode stream formatter args \<sigma>) = Inr r)
   \<and> (fmt formatter args = Inr text \<and> writeSync stream (encode text) \<sigma> = (Inr n, \<sigma>') \<longrightarrow>
        write fmt encode stream formatter args \<sigma> = (Inr (Ok Undefined), \<sigma>'))
   \<and> (fmt formatter args = Inr text \<and> writeSync stream (encode text) \<sigma> = (Inl e, \<sigma>') \<longrightarrow>
        write fmt encode stream formatter args \<sigma> = (Inr (Err e), \<sigma>'))
   \<and> (fmt formatter args = Inl e \<longrightarrow>
        write fmt encode stream formatter args \<sigma> = (Inr (Err e), \<sigma>))"
  by (auto simp add: write_def format_def split: sum.splits prod.splits)

theorem write_reports_sink_outcome_witness:
  "write (\<lambda>f a. Inr f) (map of_char) \<lparr>writeSync = (\<lambda>p \<sigma>. (Inr (length p), \<sigma> @ p))\<rparr> ''hi'' [] []
     = (Inr (Ok Undefined), [104, 105])
   \<and> write (\<lambda>f a. Inr f) (map of_char) \<lparr>writeSync = (\<lambda>p \<sigma>. (Inl (ErrorObj ''closed''), \<sigma>))\<rparr> ''hi'' [] ([] :: byte list)
     = (Inr (Err (ErrorObj ''closed'')), [])
   \<and> write (\<lambda>f a. Inl (ErrorObj ''bad'')) (map of_char) \<lparr>writeSync = (\<lambda>p \<sigma>. (Inr (length p), \<sigma> @ p))\<rparr> ''hi'' [] []
     = (Inr (Err (ErrorObj ''bad'')), [])"
  using write_reports_sink_outcome [of "\<lambda>f a. Inr f" "map of_char"
      "\<lparr>writeSync = (\<lambda>p \<sigma>. (Inr (length p), \<sigma> @ p))\<rparr>" "''hi''" "[]" "[]" "''hi''" 2 "[104, 105]" "Undefined"]
    write_reports_sink_outcome [of "\<lambda>f a. Inr f" "map of_char"
      "\<lparr>writeSync = (\<lambda>p \<sigma>. (Inl (ErrorObj ''closed''), \<sigma>))\<rparr>" "''hi''" "[]" "[] :: byte list" "''hi''" 2 "[]" "ErrorObj ''closed''"]
    write_reports_sink_outcome [of "\<lambda>f a. Inl (ErrorObj ''bad'')" "map of_char"
      "\<lparr>writeSync = (\<lambda>p \<sigma>. (Inr (length p), \<sigma> @ p))\<rparr>" "''hi''" "[]" "[]" "''hi''" 2 "[]" "ErrorObj ''bad''"]
  by simp


section \<open>Properties of the formatting engine\<close>

subsection \<open>Literal text\<close>

lemma assemble_add_literal:
  "assemble P args cursor (add_literal c segs) = c # assemble P args cursor segs"
  by (cases "(c, segs)" rule: add_literal.cases) simp_all

lemma assemble_scan_literal_only:
  "literal_only template \<Longrightarrow> assemble P args cursor (scan template) = collapse template"
  by (induction template rule: literal_only.induct) (simp_all add: assemble_add_literal)

lemma collapse_literal: "CHR ''%'' \<notin> set template \<Longrightarrow> collapse template = template"
  by (induction template rule: collapse.induct) auto

lemma literal_only_no_percent: "CHR ''%'' \<notin> set template \<Longrightarrow> literal_only template"
  by (induction template rule: literal_only.induct) auto

text \<open>
  C3. On a template in which every \<^verbatim>\<open>%\<close> belongs to a \<^verbatim>\<open>%%\<close> pair, format returns
  the template with each pair collapsed to one \<^verbatim>\<open>%\<close> and every other character as it
  is, whatever the arguments; a template without any \<^verbatim>\<open>%\<close> comes back unchanged.
\<close>

theorem format_literal_only:
  "(literal_only template \<longrightarrow> format (sprintf P) template args = collapse template)
   \<and> (CHR ''%'' \<notin> set template \<longrightarrow> format (sprintf P) template args = template)"
  by (simp add: format_def sprintf_def assemble_scan_literal_only collapse_literal
      literal_only_no_percent)

theorem format_literal_only_witness:
  "literal_only ''100%% sure, %%d'' \<and> collapse ''100%% sure, %%d'' = ''100% sure, %d''
   \<and> format (sprintf plain_policy) ''100%% sure, %%d'' [Number 1, Text ''x''] = ''100% sure, %d''
   \<and> format (sprintf plain_policy) ''plain text'' [Number 1] = ''plain text''"
  using format_literal_only [of "''100%% sure, %%d''" plain_policy "[Number 1, Text ''x'']"]
    format_literal_only [of "''plain text''" plain_policy "[Number 1]"]
  by simp

subsection \<open>Inline error tokens\<close>

lemma starts_with_append: "starts_with (tok @ post) tok"
  by (induction tok) simp_all

lemma starts_with_split: "starts_with s tok \<Longrightarrow> \<exists>post. s = tok @ post"
  by (induction s tok rule: starts_with.induct) simp_all

lemma contains_append: "contains (pre @ tok @ post) tok"
proof (induction pre)
  case Nil
  have "starts_with (tok @ post) tok" by (rule starts_with_append)
  then show ?case by (cases "tok @ post") auto
next
  case (Cons c pre)
  then show ?case by simp
qed

lemma contains_split: "contains s tok \<Longrightarrow> \<exists>pre post. s = pre @ tok @ post"
proof (induction s)
  case Nil
  then show ?case by simp
next
  case (Cons c cs)
  from Cons.prems have "starts_with (c # cs) tok \<or> contains cs tok" by simp
  then show ?case
  proof
    assume "starts_with (c # cs) tok"
    then obtain post where "c # cs = tok @ post" using starts_with_split by blast
    then have "c # cs = [] @ tok @ post" by simp
    then show ?thesis by blast
  next
    assume "contains cs tok"
    then obtain pre post where "cs = pre @ tok @ post" using Cons.IH by blast
    then have "c # cs = (c # pre) @ tok @ post" by simp
    then show ?thesis by blast
  qed
qed

lemma contains_iff: "contains s tok \<longleftrightarrow> (\<exists>pre post. s = pre @ tok @ post)"
  using contains_split contains_append by blast

lemma contains_self: "contains tok tok"
  using contains_append [of "[]" tok "[]"] by simp

lemma contains_in_front: "contains s tok \<Longrightarrow> contains (s @ post) tok"
  by (metis append.assoc contains_iff)

lemma contains_behind: "contains s tok \<Longrightarrow> contains (pre @ s) tok"
  by (metis append.assoc contains_iff)

lemma in_set_add_literal:
  "DirectiveSpan raw \<in> set (add_literal c segs) \<longleftrightarrow> DirectiveSpan raw \<in> set segs"
  by (cases "(c, segs)" rule: add_literal.cases) simp_all

lemma scan_spans_nonempty:
  "DirectiveSpan raw \<in> set (scan template) \<Longrightarrow> raw \<noteq> []"
  "DirectiveSpan raw \<in> set (in_directive body template) \<Longrightarrow> raw \<noteq> []"
  by (induction template and body template rule: scan_in_directive.induct)
     (auto simp add: in_set_add_literal split: if_splits)

lemma render_span_bad_verb:
  "raw \<noteq> [] \<Longrightarrow> verb_table P (last raw) = None \<Longrightarrow>
   render_span P args raw cursor = (bad_verb_token (last raw), cursor)"
  by (simp add: render_span_def parse_directive_def on_ok_def token_def)

lemma parse_directive_verb:
  "parse_directive known raw = Inr d \<Longrightarrow> verb d = last raw \<and> known (verb d) \<and> raw \<noteq> []"
  by (auto simp add: parse_directive_def split: if_splits option.splits prod.splits)

lemma resolve_spec_no_args:
  "resolve_spec [] v raw sp cursor = Inl failed \<Longrightarrow> failed = Missing v"
  by (cases sp) (simp_all add: resolve_spec_def nextArg_def argAtWritten_def argAt_def split: if_splits)

lemma resolve_arg_no_args: "resolve_arg [] d cursor = Inl (Missing (verb d))"
  by (simp add: resolve_arg_def nextArg_def argAtWritten_def argAt_def split: option.splits)

lemma render_directive_no_args:
  assumes "verb d \<noteq> CHR ''%''"
  shows "render_directive P [] raw d cursor = Inl (Missing (verb d))"
proof (cases "resolve_spec [] (verb d) raw (width d) cursor")
  case (Inl failed)
  then show ?thesis
    using assms resolve_spec_no_args [OF Inl] by (simp add: render_directive_def on_ok_def)
next
  case (Inr wc)
  then obtain w c1 where w: "resolve_spec [] (verb d) raw (width d) cursor = Inr (w, c1)"
    by (cases wc) simp
  show ?thesis
  proof (cases "resolve_spec [] (verb d) raw (precision d) c1")
    case (Inl failed)
    then show ?thesis
      using assms w resolve_spec_no_args [OF Inl]
      by (simp add: render_directive_def on_ok_def)
  next
    case (Inr pc)
    then obtain p c2 where "resolve_spec [] (verb d) raw (precision d) c1 = Inr (p, c2)"
      by (cases pc) simp
    then show ?thesis
      using assms w resolve_arg_no_args [of d c2]
      by (simp add: render_directive_def on_ok_def)
  qed
qed

lemma render_span_no_args:
  assumes "parse_directive (\<lambda>c. verb_table P c \<noteq> None) raw = Inr d" and "verb d \<noteq> CHR ''%''"
  shows "render_span P [] raw cursor = (missing_token (verb d), cursor)"
  using assms render_directive_no_args [OF assms(2), of P raw cursor]
  by (simp add: render_span_def on_ok_def token_def)

lemma assemble_contains_span:
  assumes "DirectiveSpan raw \<in> set segs"
    and "\<And>cursor. fst (render_span P args raw cursor) = tok"
  shows "contains (assemble P args cursor segs) tok"
  using assms(1)
proof (induction segs arbitrary: cursor)
  case Nil
  then show ?case by simp
next
  case (Cons seg segs)
  show ?case
  proof (cases "seg = DirectiveSpan raw")
    case True
    obtain out cursor' where r: "render_span P args raw cursor = (out, cursor')"
      by (cases "render_span P args raw cursor")
    with assms(2) [of cursor] have "out = tok" by simp
    with r True show ?thesis
      using contains_in_front [OF contains_self, of tok "assemble P args cursor' segs"]
      by simp
  next
    case False
    with Cons.prems have inside: "DirectiveSpan raw \<in> set segs" by simp
    show ?thesis
    proof (cases seg)
      case (LiteralRun s)
      then show ?thesis using contains_behind [OF Cons.IH [OF inside]] by simp
    next
      case (DirectiveSpan other)
      obtain out cursor' where "render_span P args other cursor = (out, cursor')"
        by (cases "render_span P args other cursor")
      with DirectiveSpan show ?thesis
        using contains_behind [OF Cons.IH [OF inside, of cursor']] by simp
    next
      case (Unfinished body)
      then show ?thesis using contains_behind [OF Cons.IH [OF inside]] by simp
    qed
  qed
qed

lemma verb_table_h: "verb_table P CHR ''h'' = None"
  by (simp add: verb_table_def)

lemma known_verbs: "verb_table P v \<noteq> None \<longleftrightarrow> v \<in> set ''tbodxXceEfFgGsTvjJiI?%''"
  by (simp add: verb_table_def)

lemma verb_not_directive_char: "verb_table P v \<noteq> None \<Longrightarrow> \<not> directive_char v"
  unfolding known_verbs directive_char_def by auto

lemma percent_is_verb: "verb_table P CHR ''%'' \<noteq> None"
  by (simp add: verb_table_def)

lemma format_unknown_verb:
  assumes "\<not> directive_char c" and "verb_table P c = None"
  shows "format (sprintf P) [CHR ''%'', c] args = bad_verb_token c"
proof -
  have "c \<noteq> CHR ''%''" using assms(2) percent_is_verb [of P] by auto
  then show ?thesis
    using assms render_span_bad_verb [of "[c]" P args 0]
    by (simp add: format_def sprintf_def)
qed

lemma parse_directive_bare:
  "known v \<Longrightarrow>
   parse_directive known [v]
     = Inr \<lparr>verb = v, flags = {}, width = Absent, precision = Absent, explicitIndex = None\<rparr>"
  by (simp add: parse_directive_def parse_explicit_def parse_spec_def parse_precision_def)

lemma format_known_verb_no_args:
  assumes "verb_table P v \<noteq> None" and "v \<noteq> CHR ''%''"
  shows "format (sprintf P) [CHR ''%'', v] [] = missing_token v"
proof -
  have "\<not> directive_char v" using assms(1) by (rule verb_not_directive_char)
  moreover have "render_span P [] [v] 0 = (missing_token v, 0)"
    using assms render_span_no_args [OF parse_directive_bare [of "\<lambda>c. verb_table P c \<noteq> None" v], of 0]
    by simp
  ultimately show ?thesis
    using assms(2) by (simp add: format_def sprintf_def)
qed

lemma missing_without_stars:
  assumes "verb d \<noteq> CHR ''%''"
    and "width d = Absent \<or> (\<exists>n. width d = Literal n)"
    and "precision d = Absent \<or> (\<exists>n. precision d = Literal n)"
    and "(explicitIndex d = None \<and> length args \<le> cursor)
         \<or> (\<exists>n. explicitIndex d = Some n \<and> (n = 0 \<or> length args < n))"
  shows "render_directive P args raw d cursor = Inl (Missing (verb d))"
  using assms
  by (auto simp add: render_directive_def on_ok_def resolve_spec_def resolve_arg_def
      nextArg_def argAtWritten_def argAt_def)

lemma finished_add_literal: "list_all finished (add_literal c segs) = list_all finished segs"
  by (cases "(c, segs)" rule: add_literal.cases) simp_all

lemma cursor_after_add_literal:
  "cursor_after P args k (add_literal c segs) = cursor_after P args k segs"
  by (cases "(c, segs)" rule: add_literal.cases) simp_all

lemma directive_char_percent: "\<not> directive_char CHR ''%''"
  by (simp add: directive_char_def)

lemma in_directive_span:
  "list_all directive_char rest \<Longrightarrow> \<not> directive_char v \<Longrightarrow>
   (v = CHR ''%'' \<longrightarrow> body @ rest \<noteq> []) \<Longrightarrow>
   in_directive body (rest @ v # post) = DirectiveSpan (body @ rest @ [v]) # scan post"
proof (induction rest arbitrary: body)
  case Nil
  then show ?case by auto
next
  case (Cons b rest)
  then have "b \<noteq> CHR ''%''" using directive_char_percent by auto
  with Cons.prems Cons.IH [of "body @ [b]"] show ?case by simp
qed

lemma assemble_scan_append:
  "list_all finished (scan pre) \<Longrightarrow>
     assemble P args k (scan (pre @ rest))
       = assemble P args k (scan pre) @ assemble P args (cursor_after P args k (scan pre)) (scan rest)"
  "list_all finished (in_directive body pre) \<Longrightarrow>
     assemble P args k (in_directive body (pre @ rest))
       = assemble P args k (in_directive body pre)
         @ assemble P args (cursor_after P args k (in_directive body pre)) (scan rest)"
proof (induction pre and body pre arbitrary: k and k rule: scan_in_directive.induct)
  case 1
  show ?case by simp
next
  case (2 c cs)
  then show ?case
    by (auto simp add: assemble_add_literal finished_add_literal cursor_after_add_literal
        split: if_splits)
next
  case (3 body)
  then show ?case by simp
next
  case (4 body c cs)
  then show ?case
    by (auto simp add: assemble_add_literal finished_add_literal cursor_after_add_literal
        split: if_splits prod.splits)
qed

lemma format_split:
  assumes "list_all finished (scan pre)" and "list_all directive_char body"
    and "\<not> directive_char v" and "v = CHR ''%'' \<longrightarrow> body \<noteq> []"
  shows "format (sprintf P) (pre @ CHR ''%'' # body @ v # post) args
         = format (sprintf P) pre args
           @ fst (render_span P args (body @ [v]) (cursor_after P args 0 (scan pre)))
           @ assemble P args (snd (render_span P args (body @ [v]) (cursor_after P args 0 (scan pre))))
               (scan post)"
proof -
  have "scan (CHR ''%'' # body @ v # post) = DirectiveSpan (body @ [v]) # scan post"
    using assms(2-4) in_directive_span [of body v "[]" post] by simp
  then show ?thesis
    using assemble_scan_append(1) [OF assms(1), of P args 0 "CHR ''%'' # body @ v # post"]
    by (simp add: format_def sprintf_def split: prod.splits)
qed

lemma render_span_missing:
  assumes "parse_directive (\<lambda>c. verb_table P c \<noteq> None) raw = Inr d"
    and "render_directive P args raw d cursor = Inl (Missing v)"
  shows "render_span P args raw cursor = (missing_token v, cursor)"
  using assms by (simp add: render_span_def on_ok_def token_def)

lemma format_contains_bad_verb:
  assumes "list_all finished (scan pre)" and "list_all directive_char body"
    and "\<not> directive_char c" and "verb_table P c = None"
  shows "contains (format (sprintf P) (pre @ CHR ''%'' # body @ c # post) args) (bad_verb_token c)"
proof -
  have "c \<noteq> CHR ''%''" using assms(4) percent_is_verb [of P] by auto
  then have "format (sprintf P) (pre @ CHR ''%'' # body @ c # post) args
         = format (sprintf P) pre args
           @ fst (render_span P args (body @ [c]) (cursor_after P args 0 (scan pre)))
           @ assemble P args (snd (render_span P args (body @ [c]) (cursor_after P args 0 (scan pre))))
               (scan post)"
    using assms(1-3) by (intro format_split) simp_all
  moreover have "fst (render_span P args (body @ [c]) (cursor_after P args 0 (scan pre)))
         = bad_verb_token c"
    using assms(4) render_span_bad_verb [of "body @ [c]" P args] by simp
  ultimately show ?thesis by (simp add: contains_append)
qed

lemma format_contains_missing:
  assumes "list_all finished (scan pre)" and "list_all directive_char body"
    and "parse_directive (\<lambda>c. verb_table P c \<noteq> None) (body @ [v]) = Inr d"
    and "v \<noteq> CHR ''%''"
    and "render_directive P args (body @ [v]) d (cursor_after P args 0 (scan pre)) = Inl (Missing v)"
  shows "contains (format (sprintf P) (pre @ CHR ''%'' # body @ v # post) args) (missing_token v)"
proof -
  have "verb_table P v \<noteq> None" using parse_directive_verb [OF assms(3)] by auto
  then have "\<not> directive_char v" by (rule verb_not_directive_char)
  then have "format (sprintf P) (pre @ CHR ''%'' # body @ v # post) args
         = format (sprintf P) pre args
           @ fst (render_span P args (body @ [v]) (cursor_after P args 0 (scan pre)))
           @ assemble P args (snd (render_span P args (body @ [v]) (cursor_after P args 0 (scan pre))))
               (scan post)"
    using assms(1,2,4) by (intro format_split) simp_all
  moreover have "fst (render_span P args (body @ [v]) (cursor_after P args 0 (scan pre)))
         = missing_token v"
    using render_span_missing [OF assms(3) assms(5)] by simp
  ultimately show ?thesis by (simp add: contains_append)
qed

text \<open>
  C2. format is a total function into strings (as the formatter that ops.ts and panic.ts
  import, the engine returns for every template and argument list), and the failures of a
  directive are rendered in band, for every template and every argument list:
  \<^item> a directive \<^verbatim>\<open>%...c\<close> whose verb \<open>c\<close> is not in the dispatch table, anywhere in
    a template after text \<open>pre\<close> that does not end inside a directive, renders as the
    token \<^verbatim>\<open>%!(BAD VERB 'c')\<close>, and that token is inside the result of format; so it
    is for every directive span that the Scanner finds in a template;
  \<^item> a directive \<^verbatim>\<open>%...v\<close> with a verb of the table (other than \<^verbatim>\<open>%\<close>), anywhere
    in a template after such text \<open>pre\<close>, whose argument index is past the end of the
    argument list at the cursor that \<open>pre\<close> leaves (or whose resolution misses an
    argument in any other way), renders as \<^verbatim>\<open>%!(MISSING 'v')\<close>, and that token is
    inside the result of format; with no arguments at all that holds for every directive
    of the template;
  \<^item> for a character \<open>c\<close> that is no verb of the table (and no character of the
    directive grammar), \<^verbatim>\<open>format("%c", ...)\<close> is the token \<^verbatim>\<open>%!(BAD VERB 'c')\<close>; for
    a verb \<open>v\<close> of the table other than \<^verbatim>\<open>%\<close>, \<^verbatim>\<open>format("%v")\<close> without
    arguments is the token \<^verbatim>\<open>%!(MISSING 'v')\<close>; \<^verbatim>\<open>format("%h", "")\<close> and
    \<^verbatim>\<open>format("%d")\<close> are instances, and \<^verbatim>\<open>format("%d %d", 1)\<close> is
    \<^verbatim>\<open>1 %!(MISSING 'd')\<close>.
\<close>

theorem format_error_tokens:
  "(DirectiveSpan raw \<in> set (scan template) \<and> verb_table P (last raw) = None \<longrightarrow>
      render_span P args raw cursor = (bad_verb_token (last raw), cursor)
    \<and> contains (format (sprintf P) template args) (bad_verb_token (last raw)))
   \<and> (list_all finished (scan pre) \<and> list_all directive_char body
      \<and> \<not> directive_char c \<and> verb_table P c = None \<longrightarrow>
      contains (format (sprintf P) (pre @ CHR ''%'' # body @ c # post) args) (bad_verb_token c))
   \<and> (verb d \<noteq> CHR ''%''
      \<and> (width d = Absent \<or> (\<exists>n. width d = Literal n))
      \<and> (precision d = Absent \<or> (\<exists>n. precision d = Literal n))
      \<and> ((explicitIndex d = None \<and> length args \<le> cursor)
         \<or> (\<exists>n. explicitIndex d = Some n \<and> (n = 0 \<or> length args < n))) \<longrightarrow>
      render_directive P args raw d cursor = Inl (Missing (verb d))
    \<and> token P (Missing (verb d)) = missing_token (verb d))
   \<and> (list_all finished (scan pre) \<and> list_all directive_char body
      \<and> parse_directive (\<lambda>c. verb_table P c \<noteq> None) (body @ [v]) = Inr d \<and> v \<noteq> CHR ''%''
      \<and> (width d = Absent \<or> (\<exists>n. width d = Literal n))
      \<and> (precision d = Absent \<or> (\<exists>n. precision d = Literal n))
      \<and> ((explicitIndex d = None \<and> length args \<le> cursor_after P args 0 (scan pre))
         \<or> (\<exists>n. explicitIndex d = Some n \<and> (n = 0 \<or> length args < n))) \<longrightarrow>
      contains (format (sprintf P) (pre @ CHR ''%'' # body @ v # post) args) (missing_token v))
   \<and> (list_all finished (scan pre) \<and> list_all directive_char body
      \<and> parse_directive (\<lambda>c. verb_table P c \<noteq> None) (body @ [v]) = Inr d \<and> v \<noteq> CHR ''%''
      \<and> render_directive P args (body @ [v]) d (cursor_after P args 0 (scan pre))
          = Inl (Missing v) \<longrightarrow>
      contains (format (sprintf P) (pre @ CHR ''%'' # body @ v # post) args) (missing_token v))
   \<and> (DirectiveSpan raw \<in> set (scan template)
      \<and> parse_directive (\<lambda>c. verb_table P c \<noteq> None) raw = Inr d \<and> verb d \<noteq> CHR ''%'' \<longrightarrow>
      contains (format (sprintf P) template []) (missing_token (verb d)))
   \<and> (\<not> directive_char c \<and> verb_table P c = None \<longrightarrow>
        format (sprintf P) [CHR ''%'', c] args = bad_verb_token c)
   \<and> (verb_table P v \<noteq> None \<and> v \<noteq> CHR ''%'' \<longrightarrow>
        format (sprintf P) [CHR ''%'', v] [] = missing_token v)
   \<and> format (engine P) template args = Inr (format (sprintf P) template args)
   \<and> format (sprintf P) ''%h'' [Text []] = bad_verb_token CHR ''h''
   \<and> contains (format (sprintf P) ''%h'' [Text []]) (bad_verb_token CHR ''h'')
   \<and> format (sprintf P) ''%d'' [] = missing_token CHR ''d''
   \<and> contains (format (sprintf P) ''%d'' []) (missing_token CHR ''d'')
   \<and> format (sprintf P) ''%d %d'' [Number 1] = ''1 '' @ missing_token CHR ''d''
   \<and> contains (format (sprintf P) ''%d %d'' [Number 1]) (missing_token CHR ''d'')"
proof (intro conjI impI)
  assume a: "DirectiveSpan raw \<in> set (scan template) \<and> verb_table P (last raw) = None"
  then have ne: "raw \<noteq> []" using scan_spans_nonempty(1) by blast
  show "render_span P args raw cursor = (bad_verb_token (last raw), cursor)"
    using a ne by (simp add: render_span_bad_verb)
  show "contains (format (sprintf P) template args) (bad_verb_token (last raw))"
    unfolding format_def sprintf_def
    using a ne by (intro assemble_contains_span [of raw]) (simp_all add: render_span_bad_verb)
next
  assume "list_all finished (scan pre) \<and> list_all directive_char body
      \<and> \<not> directive_char c \<and> verb_table P c = None"
  then show "contains (format (sprintf P) (pre @ CHR ''%'' # body @ c # post) args)
      (bad_verb_token c)"
    by (intro format_contains_bad_verb) simp_all
next
  assume a: "verb d \<noteq> CHR ''%''
      \<and> (width d = Absent \<or> (\<exists>n. width d = Literal n))
      \<and> (precision d = Absent \<or> (\<exists>n. precision d = Literal n))
      \<and> ((explicitIndex d = None \<and> length args \<le> cursor)
         \<or> (\<exists>n. explicitIndex d = Some n \<and> (n = 0 \<or> length args < n)))"
  then show "render_directive P args raw d cursor = Inl (Missing (verb d))"
    by (intro missing_without_stars) blast+
  show "token P (Missing (verb d)) = missing_token (verb d)"
    by (simp add: token_def)
next
  assume a: "list_all finished (scan pre) \<and> list_all directive_char body
      \<and> parse_directive (\<lambda>c. verb_table P c \<noteq> None) (body @ [v]) = Inr d \<and> v \<noteq> CHR ''%''
      \<and> (width d = Absent \<or> (\<exists>n. width d = Literal n))
      \<and> (precision d = Absent \<or> (\<exists>n. precision d = Literal n))
      \<and> ((explicitIndex d = None \<and> length args \<le> cursor_after P args 0 (scan pre))
         \<or> (\<exists>n. explicitIndex d = Some n \<and> (n = 0 \<or> length args < n)))"
  then have "parse_directive (\<lambda>c. verb_table P c \<noteq> None) (body @ [v]) = Inr d" by simp
  from parse_directive_verb [OF this] have v: "verb d = v" by simp
  have "render_directive P args (body @ [v]) d (cursor_after P args 0 (scan pre))
          = Inl (Missing (verb d))"
    using a v by (intro missing_without_stars) blast+
  then show "contains (format (sprintf P) (pre @ CHR ''%'' # body @ v # post) args)
      (missing_token v)"
    using a v by (intro format_contains_missing [of pre body P v d]) simp_all
next
  assume "list_all finished (scan pre) \<and> list_all directive_char body
      \<and> parse_directive (\<lambda>c. verb_table P c \<noteq> None) (body @ [v]) = Inr d \<and> v \<noteq> CHR ''%''
      \<and> render_directive P args (body @ [v]) d (cursor_after P args 0 (scan pre))
          = Inl (Missing v)"
  then show "contains (format (sprintf P) (pre @ CHR ''%'' # body @ v # post) args)
      (missing_token v)"
    by (intro format_contains_missing [of pre body P v d]) simp_all
next
  assume a: "DirectiveSpan raw \<in> set (scan template)
      \<and> parse_directive (\<lambda>c. verb_table P c \<noteq> None) raw = Inr d \<and> verb d \<noteq> CHR ''%''"
  show "contains (format (sprintf P) template []) (missing_token (verb d))"
    unfolding format_def sprintf_def
    using a by (intro assemble_contains_span [of raw]) (simp_all add: render_span_no_args)
next
  assume "\<not> directive_char c \<and> verb_table P c = None"
  then show "format (sprintf P) [CHR ''%'', c] args = bad_verb_token c"
    by (simp add: format_unknown_verb)
next
  assume "verb_table P v \<noteq> None \<and> v \<noteq> CHR ''%''"
  then show "format (sprintf P) [CHR ''%'', v] [] = missing_token v"
    by (simp add: format_known_verb_no_args)
next
  show "format (engine P) template args = Inr (format (sprintf P) template args)"
    by (simp add: format_def engine_def)
  show h: "format (sprintf P) ''%h'' [Text []] = bad_verb_token CHR ''h''"
    by code_simp
  show "contains (format (sprintf P) ''%h'' [Text []]) (bad_verb_token CHR ''h'')"
    unfolding h by (rule contains_self)
  show d: "format (sprintf P) ''%d'' [] = missing_token CHR ''d''"
    by code_simp
  show "contains (format (sprintf P) ''%d'' []) (missing_token CHR ''d'')"
    unfolding d by (rule contains_self)
  show dd: "format (sprintf P) ''%d %d'' [Number 1] = ''1 '' @ missing_token CHR ''d''"
    by code_simp
  show "contains (format (sprintf P) ''%d %d'' [Number 1]) (missing_token CHR ''d'')"
    unfolding dd using contains_append [of "''1 ''" "missing_token CHR ''d''" "[]"] by simp
qed

theorem format_error_tokens_witness:
  "DirectiveSpan ''5z'' \<in> set (scan ''a%5zb'')
   \<and> verb_table plain_policy (last ''5z'') = None
   \<and> render_span plain_policy [Number 1] ''5z'' 0 = (bad_verb_token CHR ''z'', 0)
   \<and> contains (format (sprintf plain_policy) ''a%5zb'' [Number 1]) (bad_verb_token CHR ''z'')
   \<and> list_all finished (scan ''%d and '') \<and> list_all directive_char ''-5''
   \<and> \<not> directive_char CHR ''z'' \<and> verb_table plain_policy CHR ''z'' = None
   \<and> contains (format (sprintf plain_policy) (''%d and '' @ CHR ''%'' # ''-5'' @ CHR ''z'' # ''.'')
        [Number 1]) (bad_verb_token CHR ''z'')
   \<and> render_directive plain_policy [Number 1] ''d''
        \<lparr>verb = CHR ''d'', flags = {}, width = Absent, precision = Absent, explicitIndex = None\<rparr> 1
      = Inl (Missing CHR ''d'')
   \<and> parse_directive (\<lambda>c. verb_table plain_policy c \<noteq> None) ''d''
      = Inr \<lparr>verb = CHR ''d'', flags = {}, width = Absent, precision = Absent, explicitIndex = None\<rparr>
   \<and> length [Number 1] \<le> cursor_after plain_policy [Number 1] 0 (scan ''%d and '')
   \<and> contains (format (sprintf plain_policy) (''%d and '' @ CHR ''%'' # [] @ CHR ''d'' # ''.'')
        [Number 1]) (missing_token CHR ''d'')
   \<and> format (sprintf plain_policy) ''%d and %d.'' [Number 1] = ''1 and '' @ missing_token CHR ''d'' @ ''.''
   \<and> DirectiveSpan ''d'' \<in> set (scan ''x=%d'')
   \<and> contains (format (sprintf plain_policy) ''x=%d'' []) (missing_token CHR ''d'')
   \<and> format (sprintf plain_policy) ''%z'' [Number 1] = bad_verb_token CHR ''z''
   \<and> verb_table plain_policy CHR ''x'' \<noteq> None
   \<and> format (sprintf plain_policy) ''%x'' [] = missing_token CHR ''x''"
proof -
  have plain_z: "\<not> directive_char CHR ''z''" "verb_table plain_policy CHR ''z'' = None"
    by (simp_all add: directive_char_def verb_table_def)
  have known_x: "verb_table plain_policy CHR ''x'' \<noteq> None"
    by (simp add: verb_table_def)
  have span_z: "DirectiveSpan ''5z'' \<in> set (scan ''a%5zb'')"
    by (simp add: directive_char_def)
  have unknown_z: "verb_table plain_policy (last ''5z'') = None"
    by (simp add: verb_table_def)
  have span_d: "DirectiveSpan ''d'' \<in> set (scan ''x=%d'')"
    by (simp add: directive_char_def)
  have parsed_d: "parse_directive (\<lambda>c. verb_table plain_policy c \<noteq> None) ''d''
      = Inr \<lparr>verb = CHR ''d'', flags = {}, width = Absent, precision = Absent, explicitIndex = None\<rparr>"
    by (simp add: parse_directive_def verb_table_def parse_explicit_def parse_spec_def
        parse_precision_def)
  have pre: "list_all finished (scan ''%d and '')" "list_all directive_char ''-5''"
    by (simp_all add: directive_char_def)
  have cur: "cursor_after plain_policy [Number 1] 0 (scan ''%d and '') = 1"
    by code_simp
  have whole: "format (sprintf plain_policy) ''%d and %d.'' [Number 1]
      = ''1 and '' @ missing_token CHR ''d'' @ ''.''"
    by code_simp
  show ?thesis
    using span_z unknown_z span_d parsed_d plain_z known_x pre cur whole
      format_error_tokens [where raw = "''5z''" and template = "''a%5zb''" and P = plain_policy
        and args = "[Number 1]" and cursor = 0 and c = "CHR ''z''" and v = "CHR ''x''"
        and pre = "''%d and ''" and body = "''-5''" and post = "''.''"
        and d = "\<lparr>verb = CHR ''d'', flags = {}, width = Absent, precision = Absent, explicitIndex = None\<rparr>"]
      format_error_tokens [where raw = "''d''" and template = "''x=%d''" and P = plain_policy
        and args = "[Number 1]" and cursor = 1 and v = "CHR ''d''"
        and pre = "''%d and ''" and body = "[]" and post = "''.''"
        and d = "\<lparr>verb = CHR ''d'', flags = {}, width = Absent, precision = Absent, explicitIndex = None\<rparr>"]
    by simp
qed

subsection \<open>Positional indices\<close>

lemma resolve_arg_explicit:
  "explicitIndex d = Some n \<Longrightarrow> 0 < n \<Longrightarrow> n \<le> length args \<Longrightarrow>
   resolve_arg args d cursor = Inr (args ! (n - 1), n)"
  by (simp add: resolve_arg_def argAtWritten_def argAt_def)

lemma resolve_arg_sequential:
  "explicitIndex d = None \<Longrightarrow> cursor < length args \<Longrightarrow>
   resolve_arg args d cursor = Inr (args ! cursor, cursor + 1)"
  by (simp add: resolve_arg_def nextArg_def)

text \<open>
  A directive with the explicit index \<^verbatim>\<open>[n]\<close>, \<open>n\<close> within the argument list, takes
  the \<open>n\<close>-th argument wherever the cursor stood and leaves the cursor behind it, so that
  the next directive without an index takes argument \<open>n + 1\<close>; nothing prevents an index
  from being used again.
\<close>

lemma explicit_index_selects:
  assumes "explicitIndex d = Some n" and "0 < n" and "n \<le> length args"
  shows "resolve_arg args d cursor = Inr (args ! (n - 1), n)"
    and "n < length args \<Longrightarrow> explicitIndex d' = None \<Longrightarrow>
         resolve_arg args d' n = Inr (args ! n, n + 1)"
    and "verb d \<noteq> CHR ''%'' \<Longrightarrow> width d = Absent \<Longrightarrow> precision d = Absent \<Longrightarrow>
         verb_table P (verb d) = Some conv \<Longrightarrow>
         render_directive P args raw d cursor
           = Inr (apply_conversion P d conv None None (args ! (n - 1)), n)"
  using assms
  by (simp_all add: render_directive_def on_ok_def resolve_spec_def resolve_arg_explicit
      resolve_arg_sequential)


subsection \<open>Width and precision from the arguments\<close>

lemma as_count_of_nat: "as_count (Number (of_nat n)) = Some n"
  by (simp add: as_count_def)

lemma resolve_spec_star:
  "cursor < length args \<Longrightarrow> args ! cursor = Number (of_nat n) \<Longrightarrow>
   resolve_spec args v raw FromArg cursor = Inr (Some n, cursor + 1)"
  by (simp add: resolve_spec_def nextArg_def as_count_of_nat)

lemma apply_conversion_specs:
  "apply_conversion P (d\<lparr>width := x, precision := y\<rparr>) conv w p a = apply_conversion P d conv w p a"
  by (cases a) (simp_all add: apply_conversion_def)

lemma render_directive_stars:
  assumes "explicitIndex d = None"
  shows "map_sum id fst
           (render_directive P (front @ Number (of_nat w) # Number (of_nat p) # rest) raw
              (d\<lparr>width := FromArg, precision := FromArg\<rparr>) (length front))
         = map_sum id fst
           (render_directive P (front @ rest) raw
              (d\<lparr>width := Literal w, precision := Literal p\<rparr>) (length front))"
  using assms
  by (simp add: render_directive_def on_ok_def resolve_spec_def nextArg_def as_count_of_nat
      resolve_arg_def nth_append apply_conversion_specs split: option.splits)

text \<open>
  C5. A \<^verbatim>\<open>*\<close> for the width or the precision consumes the next argument and stands
  for the number it holds. A directive with both starred, on arguments with the two numbers
  in front, renders what the directive with the two numbers written in it renders on the
  arguments without them (\<open>front\<close> being the arguments already consumed). In particular
  \<^verbatim>\<open>format("%*.*f", 9, 8, 456.0)\<close> is \<^verbatim>\<open>format("%9.8f", 456.0)\<close>: the number in fixed
  notation with eight digits after the point, padded to nine characters.
\<close>

theorem star_width_precision:
  "(cursor < length args \<and> args ! cursor = Number (of_nat n) \<longrightarrow>
      resolve_spec args v raw FromArg cursor = Inr (Some n, cursor + 1)
    \<and> resolve_spec args v raw (Literal n) (cursor + 1) = Inr (Some n, cursor + 1))
   \<and> (explicitIndex d = None \<longrightarrow>
        map_sum id fst
          (render_directive P (front @ Number (of_nat w) # Number (of_nat p) # rest) raw
             (d\<lparr>width := FromArg, precision := FromArg\<rparr>) (length front))
        = map_sum id fst
          (render_directive P (front @ rest) raw
             (d\<lparr>width := Literal w, precision := Literal p\<rparr>) (length front)))
   \<and> format (sprintf P) ''%*.*f'' [Number 9, Number 8, Number 456]
      = format (sprintf P) ''%9.8f'' [Number 456]
   \<and> format (sprintf P) ''%9.8f'' [Number 456]
      = pad {} (Some 9) (float_form P CHR ''f'' {} (Some 8) 456)"
proof (intro conjI impI)
  assume "cursor < length args \<and> args ! cursor = Number (of_nat n)"
  then show "resolve_spec args v raw FromArg cursor = Inr (Some n, cursor + 1)"
    by (simp add: resolve_spec_star)
  show "resolve_spec args v raw (Literal n) (cursor + 1) = Inr (Some n, cursor + 1)"
    by (simp add: resolve_spec_def)
next
  assume "explicitIndex d = None"
  then show "map_sum id fst
          (render_directive P (front @ Number (of_nat w) # Number (of_nat p) # rest) raw
             (d\<lparr>width := FromArg, precision := FromArg\<rparr>) (length front))
        = map_sum id fst
          (render_directive P (front @ rest) raw
             (d\<lparr>width := Literal w, precision := Literal p\<rparr>) (length front))"
    by (rule render_directive_stars)
next
  show "format (sprintf P) ''%*.*f'' [Number 9, Number 8, Number 456]
      = format (sprintf P) ''%9.8f'' [Number 456]"
    by code_simp
  show "format (sprintf P) ''%9.8f'' [Number 456]
      = pad {} (Some 9) (float_form P CHR ''f'' {} (Some 8) 456)"
    by (simp add: format_def sprintf_def directive_char_def render_span_def parse_directive_def
        verb_table_def parse_explicit_def parse_spec_def parse_precision_def digit_char_def
        number_of_def flag_char_def on_ok_def render_directive_def resolve_spec_def
        resolve_arg_def nextArg_def apply_conversion_def fmt_float_def)
qed

theorem star_width_precision_witness:
  "resolve_spec [Number 9, Number 8, Number 456] CHR ''f'' ''*.*f'' FromArg 0 = Inr (Some 9, 1)
   \<and> resolve_spec [Number 9, Number 8, Number 456] CHR ''f'' ''*.*f'' (Literal 9) 1 = Inr (Some 9, 1)
   \<and> map_sum id fst
       (render_directive plain_policy [Number 9, Number 8, Number 456] ''*.*f''
          \<lparr>verb = CHR ''f'', flags = {}, width = FromArg, precision = FromArg, explicitIndex = None\<rparr> 0)
     = map_sum id fst
       (render_directive plain_policy [Number 456] ''*.*f''
          \<lparr>verb = CHR ''f'', flags = {}, width = Literal 9, precision = Literal 8, explicitIndex = None\<rparr> 0)
   \<and> format (sprintf plain_policy) ''%*.*f'' [Number 9, Number 8, Number 456]
      = format (sprintf plain_policy) ''%9.8f'' [Number 456]"
  using star_width_precision [where cursor = 0 and args = "[Number 9, Number 8, Number 456]"
      and n = 9 and v = "CHR ''f''" and raw = "''*.*f''" and P = plain_policy and front = "[]"
      and w = 9 and p = 8 and rest = "[Number 456]"
      and d = "\<lparr>verb = CHR ''f'', flags = {}, width = Absent, precision = Absent, explicitIndex = None\<rparr>"]
  by simp

section \<open>Unwrapping without a fallback\<close>

lemma panic_Text:
  "(panic fmt (Text s) args :: 'a js) = Inl (case fmt s args of Inl e \<Rightarrow> e | Inr m \<Rightarrow> Text m)"
  by (simp add: panic_def then_js_def split: sum.splits)

lemma panic_Error_Text:
  "(panic_Error fmt (Text s) args :: 'a js)
     = Inl (case fmt s args of Inl e \<Rightarrow> e | Inr m \<Rightarrow> ErrorObj m)"
  by (simp add: panic_Error_def then_js_def split: sum.splits)

lemma panic_other:
  "typeof v \<noteq> ''string'' \<Longrightarrow> (panic fmt v args :: 'a js) = Inl v"
  "typeof v \<noteq> ''string'' \<Longrightarrow> (panic_Error fmt v args :: 'a js) = Inl v"
  by (simp_all add: panic_def panic_Error_def)

lemma engine_literal:
  "CHR ''%'' \<notin> set template \<Longrightarrow> engine P template args = Inr template"
  by (simp add: engine_def sprintf_def assemble_scan_literal_only literal_only_no_percent
      collapse_literal)

text \<open>
  C7, as the claim states it: an unwrap without a fallback is an abort carrying a
  diagnostic message. \<^verbatim>\<open>Err().unwrap()\<close> throws \<^verbatim>\<open>undefined\<close>, and
  \<^verbatim>\<open>Err(5).unwrap()\<close> throws the number: neither carries a message. This is so with
  both revisions of panic, which throw a value that is no string as it is.
\<close>

theorem unwrap_Err_counterexample:
  "Result_unwrap (panic (engine plain_policy)) (Err Undefined) = Inl Undefined
   \<and> Result_unwrap (panic_Error (engine plain_policy)) (Err Undefined) = Inl Undefined
   \<and> diagnostic Undefined = None
   \<and> Result_unwrap (panic (engine plain_policy)) (Err (Number 5)) = Inl (Number 5)
   \<and> Result_unwrap (panic_Error (engine plain_policy)) (Err (Number 5)) = Inl (Number 5)
   \<and> diagnostic (Number 5) = None"
  by (simp add: Result_unwrap_def Result_expect_def Err_def panic_def panic_Error_def then_js_def)

text \<open>
  C7, amended. An Option that is None (\<^verbatim>\<open>#has\<close> false, whatever \<^verbatim>\<open>#value\<close> holds)
  and a Result that is Err never return from \<^verbatim>\<open>unwrap()\<close> and \<^verbatim>\<open>expect(msg)\<close>, and
  what they throw is this. \<^verbatim>\<open>expect(msg)\<close> throws the formatted \<open>msg\<close>, and
  \<^verbatim>\<open>unwrap()\<close> of an Option the formatted \<^verbatim>\<open>Option does not contain a value!\<close>: as a
  string with panic.ts, as the message of an Error with its documented revision (if the
  formatter itself throws, that is what is thrown). \<^verbatim>\<open>unwrap()\<close> of a Result hands the
  error it holds to panic: a string is formatted and thrown like a message, any other
  value is thrown as it is, with the message it has, if any. \<^verbatim>\<open>unwrapOr\<close> returns the
  fallback value and \<^verbatim>\<open>unwrapOrElse\<close> returns what the fallback callback returns.
\<close>

theorem unwrap_without_fallback_throws:
  "(\<not> has opt \<longrightarrow>
      Option_expect (panic fmt) opt msg
        = Inl (case fmt msg [] of Inl e \<Rightarrow> e | Inr m \<Rightarrow> Text m)
    \<and> Option_expect (panic_Error fmt) opt msg
        = Inl (case fmt msg [] of Inl e \<Rightarrow> e | Inr m \<Rightarrow> ErrorObj m)
    \<and> Option_unwrap (panic fmt) opt
        = Inl (case fmt ''Option does not contain a value!'' [] of Inl e \<Rightarrow> e | Inr m \<Rightarrow> Text m)
    \<and> Option_unwrap (panic_Error fmt) opt
        = Inl (case fmt ''Option does not contain a value!'' [] of
                 Inl e \<Rightarrow> e | Inr m \<Rightarrow> ErrorObj m)
    \<and> Option_unwrap (panic (engine P)) opt = Inl (Text ''Option does not contain a value!'')
    \<and> Option_unwrap (panic_Error (engine P)) opt
        = Inl (ErrorObj ''Option does not contain a value!'')
    \<and> Option_unwrapOr opt fallback = Inr fallback
    \<and> Option_unwrapOrElse opt cb = cb ())
   \<and> (res_isError res \<longrightarrow>
      Result_expect (panic fmt) res (Text s)
        = Inl (case fmt s [] of Inl e \<Rightarrow> e | Inr m \<Rightarrow> Text m)
    \<and> Result_expect (panic_Error fmt) res (Text s)
        = Inl (case fmt s [] of Inl e \<Rightarrow> e | Inr m \<Rightarrow> ErrorObj m)
    \<and> (res_error res = Text held \<longrightarrow>
          Result_unwrap (panic fmt) res
            = Inl (case fmt held [] of Inl e \<Rightarrow> e | Inr m \<Rightarrow> Text m)
        \<and> Result_unwrap (panic_Error fmt) res
            = Inl (case fmt held [] of Inl e \<Rightarrow> e | Inr m \<Rightarrow> ErrorObj m))
    \<and> (typeof (res_error res) \<noteq> ''string'' \<longrightarrow>
          Result_unwrap (panic fmt) res = Inl (res_error res)
        \<and> Result_unwrap (panic_Error fmt) res = Inl (res_error res))
    \<and> Result_unwrapOr res fallback = Inr fallback
    \<and> Result_unwrapOrElse res rcb = rcb (res_error res))"
proof (intro conjI impI)
  assume none: "\<not> has opt"
  show "Option_expect (panic fmt) opt msg
        = Inl (case fmt msg [] of Inl e \<Rightarrow> e | Inr m \<Rightarrow> Text m)"
    using none by (simp add: Option_expect_def panic_Text then_js_def)
  show "Option_expect (panic_Error fmt) opt msg
        = Inl (case fmt msg [] of Inl e \<Rightarrow> e | Inr m \<Rightarrow> ErrorObj m)"
    using none by (simp add: Option_expect_def panic_Error_Text then_js_def)
  show "Option_unwrap (panic fmt) opt
        = Inl (case fmt ''Option does not contain a value!'' [] of Inl e \<Rightarrow> e | Inr m \<Rightarrow> Text m)"
    using none by (simp add: Option_unwrap_def Option_expect_def panic_Text then_js_def)
  show "Option_unwrap (panic_Error fmt) opt
        = Inl (case fmt ''Option does not contain a value!'' [] of
                 Inl e \<Rightarrow> e | Inr m \<Rightarrow> ErrorObj m)"
    using none by (simp add: Option_unwrap_def Option_expect_def panic_Error_Text then_js_def)
  have lit: "engine P ''Option does not contain a value!'' [] = Inr ''Option does not contain a value!''"
    by (rule engine_literal) simp
  show "Option_unwrap (panic (engine P)) opt = Inl (Text ''Option does not contain a value!'')"
    using none lit by (simp add: Option_unwrap_def Option_expect_def panic_Text then_js_def)
  show "Option_unwrap (panic_Error (engine P)) opt
        = Inl (ErrorObj ''Option does not contain a value!'')"
    using none lit by (simp add: Option_unwrap_def Option_expect_def panic_Error_Text then_js_def)
  show "Option_unwrapOr opt fallback = Inr fallback"
    using none by (simp add: Option_unwrapOr_def)
  show "Option_unwrapOrElse opt cb = cb ()"
    using none by (simp add: Option_unwrapOrElse_def)
next
  assume err: "res_isError res"
  show "Result_expect (panic fmt) res (Text s)
        = Inl (case fmt s [] of Inl e \<Rightarrow> e | Inr m \<Rightarrow> Text m)"
    using err by (simp add: Result_expect_def panic_Text then_js_def)
  show "Result_expect (panic_Error fmt) res (Text s)
        = Inl (case fmt s [] of Inl e \<Rightarrow> e | Inr m \<Rightarrow> ErrorObj m)"
    using err by (simp add: Result_expect_def panic_Error_Text then_js_def)
  show "Result_unwrapOr res fallback = Inr fallback"
    using err by (simp add: Result_unwrapOr_def)
  show "Result_unwrapOrElse res rcb = rcb (res_error res)"
    using err by (simp add: Result_unwrapOrElse_def)
  {
    assume "res_error res = Text held"
    then show "Result_unwrap (panic fmt) res
            = Inl (case fmt held [] of Inl e \<Rightarrow> e | Inr m \<Rightarrow> Text m)"
      and "Result_unwrap (panic_Error fmt) res
            = Inl (case fmt held [] of Inl e \<Rightarrow> e | Inr m \<Rightarrow> ErrorObj m)"
      using err
      by (simp_all add: Result_unwrap_def Result_expect_def panic_Text panic_Error_Text then_js_def)
  }
  {
    assume "typeof (res_error res) \<noteq> ''string''"
    then show "Result_unwrap (panic fmt) res = Inl (res_error res)"
      and "Result_unwrap (panic_Error fmt) res = Inl (res_error res)"
      using err
      by (simp_all add: Result_unwrap_def Result_expect_def panic_other then_js_def)
  }
qed

theorem unwrap_without_fallback_throws_witness:
  "\<not> has None_opt
   \<and> Option_expect (panic (engine plain_policy)) None_opt ''no value'' = Inl (Text ''no value'')
   \<and> Option_expect (panic_Error (engine plain_policy)) None_opt ''no value''
      = Inl (ErrorObj ''no value'')
   \<and> Option_unwrap (panic (engine plain_policy)) None_opt
      = Inl (Text ''Option does not contain a value!'')
   \<and> Option_unwrap (panic_Error (engine plain_policy)) None_opt
      = Inl (ErrorObj ''Option does not contain a value!'')
   \<and> Option_unwrapOr None_opt (Number 7) = Inr (Number 7)
   \<and> Option_unwrapOrElse None_opt (\<lambda>_. Inr (Number 8)) = Inr (Number 8)
   \<and> res_isError (Err (Text ''disk full''))
   \<and> Result_expect (panic (engine plain_policy)) (Err (Text ''disk full'')) (Text ''failed'')
      = Inl (Text ''failed'')
   \<and> Result_unwrap (panic (engine plain_policy)) (Err (Text ''disk full'')) = Inl (Text ''disk full'')
   \<and> Result_unwrap (panic_Error (engine plain_policy)) (Err (Text ''disk full''))
      = Inl (ErrorObj ''disk full'')
   \<and> res_isError (Err (ErrorObj ''closed''))
   \<and> Result_unwrap (panic (engine plain_policy)) (Err (ErrorObj ''closed'')) = Inl (ErrorObj ''closed'')
   \<and> Result_unwrapOr (Err (ErrorObj ''closed'')) (Number 7) = Inr (Number 7)
   \<and> Result_unwrapOrElse (Err (ErrorObj ''closed'')) (\<lambda>e. Inr (Number 8)) = Inr (Number 8)"
proof -
  have lit: "engine plain_policy ''no value'' [] = Inr ''no value''"
    "engine plain_policy ''failed'' [] = Inr ''failed''"
    "engine plain_policy ''disk full'' [] = Inr ''disk full''"
    by (simp_all add: engine_literal)
  show ?thesis
    using lit
      unwrap_without_fallback_throws [where opt = None_opt and fmt = "engine plain_policy"
        and msg = "''no value''" and P = plain_policy and fallback = "Number 7"
        and cb = "\<lambda>_. Inr (Number 8)" and res = "Err (Text ''disk full'')" and s = "''failed''"
        and held = "''disk full''" and rcb = "\<lambda>e. Inr (Number 8)"]
      unwrap_without_fallback_throws [where opt = None_opt and fmt = "engine plain_policy"
        and msg = "''no value''" and P = plain_policy and fallback = "Number 7"
        and cb = "\<lambda>_. Inr (Number 8)" and res = "Err (ErrorObj ''closed'')" and s = "''failed''"
        and held = "''disk full''" and rcb = "\<lambda>e. Inr (Number 8)"]
    by (simp add: None_opt_def Err_def)
qed

end
